theory Spec2Isabelle
  imports Complex_Main "HOL-Library.Log_Nat"
begin

section \<open>JavaScript values used by the server\<close>

text \<open>
  Strings are lists of 8-bit code units; the texts handled here are ASCII.  Instants are
  the millisecond time values of \<^verbatim>\<open>Date\<close> objects (the ISO-8601 strings the source stores are
  the \<^verbatim>\<open>toISOString\<close> renderings of such instants, and \<^verbatim>\<open>new Date(s).getTime()\<close> reads them back).
  The clock (\<^verbatim>\<open>Date.now()\<close>, \<^verbatim>\<open>new Date()\<close>) is an explicit argument \<open>now\<close>.
\<close>

subsection \<open>\<^verbatim>\<open>Map\<close>: insertion-ordered, keys unique\<close>

text \<open>
  A \<^verbatim>\<open>Map<string, V>\<close> is an association list in insertion order.  \<^verbatim>\<open>set\<close> on a key that is
  present replaces the value in place, on a new key it appends.
\<close>

fun map_set :: "'k \<Rightarrow> 'v \<Rightarrow> ('k \<times> 'v) list \<Rightarrow> ('k \<times> 'v) list" where
  "map_set k v [] = [(k, v)]"
| "map_set k v (p # ps) = (if fst p = k then (k, v) # ps else p # map_set k v ps)"

definition map_get :: "('k \<times> 'v) list \<Rightarrow> 'k \<Rightarrow> 'v option" where
  "map_get m k = map_of m k"

definition map_has :: "('k \<times> 'v) list \<Rightarrow> 'k \<Rightarrow> bool" where
  "map_has m k = (map_of m k \<noteq> None)"

definition map_delete :: "'k \<Rightarrow> ('k \<times> 'v) list \<Rightarrow> ('k \<times> 'v) list" where
  "map_delete k m = filter (\<lambda>p. fst p \<noteq> k) m"

subsection \<open>Strings\<close>

text \<open>
  Case conversion of the letters a to z; every other character is left as it is.  This is
  what \<^verbatim>\<open>toLowerCase\<close> and \<^verbatim>\<open>toUpperCase\<close> do on ASCII text.
\<close>

definition lower_char :: "char \<Rightarrow> char" where
  "lower_char c =
     (case map_of (zip ''ABCDEFGHIJKLMNOPQRSTUVWXYZ'' ''abcdefghijklmnopqrstuvwxyz'') c of
        Some l \<Rightarrow> l | None \<Rightarrow> c)"

definition upper_char :: "char \<Rightarrow> char" where
  "upper_char c =
     (case map_of (zip ''abcdefghijklmnopqrstuvwxyz'' ''ABCDEFGHIJKLMNOPQRSTUVWXYZ'') c of
        Some u \<Rightarrow> u | None \<Rightarrow> c)"

definition js_toLowerCase :: "string \<Rightarrow> string" where
  "js_toLowerCase s = map lower_char s"

definition js_toUpperCase :: "string \<Rightarrow> string" where
  "js_toUpperCase s = map upper_char s"

fun js_startsWith :: "string \<Rightarrow> string \<Rightarrow> bool" where
  "js_startsWith s [] = True"
| "js_startsWith [] (p # ps) = False"
| "js_startsWith (c # cs) (p # ps) = (c = p \<and> js_startsWith cs ps)"

fun js_includes :: "string \<Rightarrow> string \<Rightarrow> bool" where
  "js_includes [] sub = (sub = [])"
| "js_includes (c # cs) sub = (js_startsWith (c # cs) sub \<or> js_includes cs sub)"

text \<open>The classes \<^verbatim>\<open>\s\<close> and \<^verbatim>\<open>\w\<close> of regular expressions, on ASCII.\<close>

definition is_space :: "char \<Rightarrow> bool" where
  "is_space c = (c \<in> set [CHR 0x09, CHR 0x0A, CHR 0x0B, CHR 0x0C, CHR 0x0D, CHR '' ''])"

definition is_word :: "char \<Rightarrow> bool" where
  "is_word c =
     (c \<in> set ''abcdefghijklmnopqrstuvwxyzABCDEFGHIJKLMNOPQRSTUVWXYZ0123456789_'')"

definition js_trim :: "string \<Rightarrow> string" where
  "js_trim s = rev (dropWhile is_space (rev (dropWhile is_space s)))"

fun js_join :: "string \<Rightarrow> string list \<Rightarrow> string" where
  "js_join sep [] = []"
| "js_join sep [x] = x"
| "js_join sep (x # y # ys) = x @ sep @ js_join sep (y # ys)"

text \<open>\<^verbatim>\<open>s.split(',')\<close>, for a separator of one character.\<close>

fun split_char :: "char \<Rightarrow> string \<Rightarrow> string list" where
  "split_char sep [] = [[]]"
| "split_char sep (c # cs) =
     (if c = sep then [] # split_char sep cs
      else (case split_char sep cs of w # ws \<Rightarrow> (c # w) # ws | [] \<Rightarrow> [[c]]))"

text \<open>
  \<^verbatim>\<open>s.split(/\s+/)\<close>: the pieces between maximal runs of white space; a run at either end
  of the string leaves an empty piece there.
\<close>

function split_ws_acc :: "string \<Rightarrow> string \<Rightarrow> string list" where
  "split_ws_acc acc [] = [rev acc]"
| "split_ws_acc acc (c # cs) =
     (if is_space c then rev acc # split_ws_acc [] (dropWhile is_space cs)
      else split_ws_acc (c # acc) cs)"
  by pat_completeness auto
termination
  by (relation "measure (\<lambda>p. length (snd p))") (auto simp: length_dropWhile_le less_Suc_eq_le)

definition split_ws :: "string \<Rightarrow> string list" where
  "split_ws s = split_ws_acc [] s"

text \<open>
  \<^verbatim>\<open>GetSubstitution\<close> for a replacement text when the pattern has no capture group:
  \<^verbatim>\<open>$$\<close> is a dollar sign, \<^verbatim>\<open>$&\<close> the matched text, \<^verbatim>\<open>$`\<close> the text that precedes
  the match and \<^verbatim>\<open>$'\<close> the text that follows it; any other \<^verbatim>\<open>$\<close> stands for itself.
\<close>

fun get_substitution :: "string \<Rightarrow> string \<Rightarrow> string \<Rightarrow> string \<Rightarrow> string" where
  "get_substitution matched pre post [] = []"
| "get_substitution matched pre post [c] = [c]"
| "get_substitution matched pre post (c # d # ds) =
     (if c \<noteq> CHR ''$'' then c # get_substitution matched pre post (d # ds)
      else if d = CHR ''$'' then CHR ''$'' # get_substitution matched pre post ds
      else if d = CHR ''&'' then matched @ get_substitution matched pre post ds
      else if d = CHR 0x60 then pre @ get_substitution matched pre post ds
      else if d = CHR 0x27 then post @ get_substitution matched pre post ds
      else c # get_substitution matched pre post (d # ds))"

text \<open>The first occurrence of a text: what precedes it and what follows it.\<close>

fun find_sub :: "string \<Rightarrow> string \<Rightarrow> (string \<times> string) option" where
  "find_sub pat [] = (if pat = [] then Some ([], []) else None)"
| "find_sub pat (c # cs) =
     (if js_startsWith (c # cs) pat then Some ([], drop (length pat) (c # cs))
      else map_option (\<lambda>ba. (c # fst ba, snd ba)) (find_sub pat cs))"

text \<open>\<^verbatim>\<open>s.replace(pat, rep)\<close> with a string pattern: the first occurrence only.\<close>

definition js_replace_str :: "string \<Rightarrow> string \<Rightarrow> string \<Rightarrow> string" where
  "js_replace_str pat rep s =
     (case find_sub pat s of
        None \<Rightarrow> s
      | Some ba \<Rightarrow> fst ba @ get_substitution pat (fst ba) (snd ba) rep @ snd ba)"

subsection \<open>Regular expressions\<close>

text \<open>
  The constructs the regular expressions of the source use.  \<open>Grp i r\<close> is the \<open>i\<close>-th
  capture group; no group of the source stands under a quantifier.
\<close>

datatype re =
    Lit string
  | Dot
  | OneOf string
  | WSpace
  | Digit
  | Bol
  | Eol
  | Seq re re
  | Alt re re
  | Opt re
  | Star re
  | LazyStar re
  | Plus re
  | Grp nat re

text \<open>
  A state of the matcher: the input still to be read and the captures made so far.
  With the flag \<^verbatim>\<open>i\<close> two characters match when their upper-case forms agree; the
  matcher then reads the upper-case form of the input against the upper-case form of the
  expression, and takes the captured texts from the input itself.
\<close>

type_synonym mstate = "string \<times> (nat \<times> string) list"

definition line_terminator :: "char \<Rightarrow> bool" where
  "line_terminator c = (c = CHR 0x0A \<or> c = CHR 0x0D)"

primrec canon :: "re \<Rightarrow> re" where
  "canon (Lit l) = Lit (map upper_char l)"
| "canon Dot = Dot"
| "canon (OneOf cls) = OneOf (map upper_char cls)"
| "canon WSpace = WSpace"
| "canon Digit = Digit"
| "canon Bol = Bol"
| "canon Eol = Eol"
| "canon (Seq a b) = Seq (canon a) (canon b)"
| "canon (Alt a b) = Alt (canon a) (canon b)"
| "canon (Opt a) = Opt (canon a)"
| "canon (Star a) = Star (canon a)"
| "canon (LazyStar a) = LazyStar (canon a)"
| "canon (Plus a) = Plus (canon a)"
| "canon (Grp i a) = Grp i (canon a)"

fun lit_prefix :: "string \<Rightarrow> string \<Rightarrow> string option" where
  "lit_prefix [] s = Some s"
| "lit_prefix (p # ps) [] = None"
| "lit_prefix (p # ps) (c # cs) = (if p = c then lit_prefix ps cs else None)"

text \<open>
  Quantifiers backtrack in the order of the language: a greedy star first tries one more
  round, a lazy star first tries to stop.  A round that reads nothing is rejected, so the
  number of rounds is bounded by the length of the input left.
\<close>

fun star_greedy :: "nat \<Rightarrow> (mstate \<Rightarrow> mstate list) \<Rightarrow> mstate \<Rightarrow> mstate list" where
  "star_greedy 0 f st = [st]"
| "star_greedy (Suc n) f st =
     concat (map (star_greedy n f) (filter (\<lambda>st'. fst st' \<noteq> fst st) (f st))) @ [st]"

fun star_lazy :: "nat \<Rightarrow> (mstate \<Rightarrow> mstate list) \<Rightarrow> mstate \<Rightarrow> mstate list" where
  "star_lazy 0 f st = [st]"
| "star_lazy (Suc n) f st =
     st # concat (map (star_lazy n f) (filter (\<lambda>st'. fst st' \<noteq> fst st) (f st)))"

text \<open>
  All the ways a regular expression matches at the head of the input left, in the order
  in which a backtracking matcher finds them.  \<open>orig\<close> is the whole input as given.
\<close>

primrec rmatch :: "re \<Rightarrow> string \<Rightarrow> mstate \<Rightarrow> mstate list" where
  "rmatch (Lit l) orig st =
     (case lit_prefix l (fst st) of None \<Rightarrow> [] | Some rest \<Rightarrow> [(rest, snd st)])"
| "rmatch Dot orig st =
     (case fst st of [] \<Rightarrow> [] | c # cs \<Rightarrow> if line_terminator c then [] else [(cs, snd st)])"
| "rmatch (OneOf cls) orig st =
     (case fst st of [] \<Rightarrow> [] | c # cs \<Rightarrow> if c \<in> set cls then [(cs, snd st)] else [])"
| "rmatch WSpace orig st =
     (case fst st of [] \<Rightarrow> [] | c # cs \<Rightarrow> if is_space c then [(cs, snd st)] else [])"
| "rmatch Digit orig st =
     (case fst st of [] \<Rightarrow> [] | c # cs \<Rightarrow> if c \<in> set ''0123456789'' then [(cs, snd st)] else [])"
| "rmatch Bol orig st = (if length (fst st) = length orig then [st] else [])"
| "rmatch Eol orig st = (if fst st = [] then [st] else [])"
| "rmatch (Seq a b) orig st = concat (map (rmatch b orig) (rmatch a orig st))"
| "rmatch (Alt a b) orig st = rmatch a orig st @ rmatch b orig st"
| "rmatch (Opt a) orig st = filter (\<lambda>st'. fst st' \<noteq> fst st) (rmatch a orig st) @ [st]"
| "rmatch (Star a) orig st = star_greedy (length (fst st)) (rmatch a orig) st"
| "rmatch (LazyStar a) orig st = star_lazy (length (fst st)) (rmatch a orig) st"
| "rmatch (Plus a) orig st =
     concat (map (\<lambda>st'. star_greedy (length (fst st')) (rmatch a orig) st') (rmatch a orig st))"
| "rmatch (Grp i a) orig st =
     map (\<lambda>st'. (fst st',
            map_set i (take (length (fst st) - length (fst st'))
                         (drop (length orig - length (fst st)) orig)) (snd st')))
       (rmatch a orig st)"

text \<open>
  The result of \<^verbatim>\<open>exec\<close>: the text before the match, the matched text, the text after
  it and the captures.
\<close>

record rmatch_result =
  m_before :: string
  m_matched :: string
  m_after :: string
  m_groups :: "(nat \<times> string) list"

text \<open>
  \<^verbatim>\<open>r.exec(inp)\<close> without the flag \<^verbatim>\<open>g\<close>: the first start position, from the left, at
  which the expression matches, and the first match found there.  \<open>s\<close> is the input left
  as the matcher reads it, \<open>os\<close> the same stretch of the input as given.
\<close>

fun re_search :: "re \<Rightarrow> string \<Rightarrow> string \<Rightarrow> string \<Rightarrow> string \<Rightarrow> rmatch_result option" where
  "re_search r orig pre [] os =
     (case rmatch r orig ([], []) of
        st # _ \<Rightarrow> Some \<lparr>m_before = rev pre, m_matched = [], m_after = os, m_groups = snd st\<rparr>
      | [] \<Rightarrow> None)"
| "re_search r orig pre (c # cs) os =
     (case rmatch r orig (c # cs, []) of
        st # _ \<Rightarrow> Some \<lparr>m_before = rev pre,
                         m_matched = take (length (c # cs) - length (fst st)) os,
                         m_after = drop (length (c # cs) - length (fst st)) os,
                         m_groups = snd st\<rparr>
      | [] \<Rightarrow> re_search r orig (hd os # pre) cs (tl os))"

definition re_exec :: "re \<Rightarrow> bool \<Rightarrow> string \<Rightarrow> rmatch_result option" where
  "re_exec r ic inp =
     (if ic then re_search (canon r) inp [] (map upper_char inp) inp
      else re_search r inp [] inp inp)"

definition re_test :: "re \<Rightarrow> bool \<Rightarrow> string \<Rightarrow> bool" where
  "re_test r ic inp = (re_exec r ic inp \<noteq> None)"

text \<open>\<^verbatim>\<open>s.replace(r, rep)\<close> for an expression without the flag \<^verbatim>\<open>g\<close>.\<close>

definition js_replace_re :: "re \<Rightarrow> bool \<Rightarrow> string \<Rightarrow> string \<Rightarrow> string" where
  "js_replace_re r ic rep s =
     (case re_exec r ic s of
        None \<Rightarrow> s
      | Some m \<Rightarrow> m_before m @ get_substitution (m_matched m) (m_before m) (m_after m) rep @ m_after m)"

text \<open>Alternatives and sequences of several parts.\<close>

fun alts :: "re list \<Rightarrow> re" where
  "alts [] = Lit []"
| "alts [r] = r"
| "alts (r # rs) = Alt r (alts rs)"

fun seqs :: "re list \<Rightarrow> re" where
  "seqs [] = Lit []"
| "seqs [r] = r"
| "seqs (r # rs) = Seq r (seqs rs)"

text \<open>The decimal text of a natural number.\<close>

definition digit_char :: "nat \<Rightarrow> char" where
  "digit_char n = ''0123456789'' ! n"

function string_of_nat :: "nat \<Rightarrow> string" where
  "string_of_nat n = (if n < 10 then [digit_char n] else string_of_nat (n div 10) @ [digit_char (n mod 10)])"
  by pat_completeness auto
termination
  by (relation "measure id") simp_all

declare string_of_nat.simps [simp del]

subsection \<open>Object literals\<close>

text \<open>
  \<^verbatim>\<open>obj[k]\<close> on an object literal finds the literal's own property \<open>k\<close>; failing that
  it finds the member of that name which every object inherits from
  \<^verbatim>\<open>Object.prototype\<close> (a function or an object, never a string); failing that it is
  \<^verbatim>\<open>undefined\<close>.
\<close>

definition object_prototype_members :: "string list" where
  "object_prototype_members =
     [''constructor'', ''__defineGetter__'', ''__defineSetter__'', ''hasOwnProperty'',
      ''__lookupGetter__'', ''__lookupSetter__'', ''isPrototypeOf'', ''propertyIsEnumerable'',
      ''toString'', ''valueOf'', ''__proto__'', ''toLocaleString'']"

datatype 'v lookup = Own 'v | Inherited string | Undefined

definition obj_get :: "(string \<times> 'v) list \<Rightarrow> string \<Rightarrow> 'v lookup" where
  "obj_get obj k =
     (case map_of obj k of
        Some v \<Rightarrow> Own v
      | None \<Rightarrow> if k \<in> set object_prototype_members then Inherited k else Undefined)"

text \<open>
  What a field resolver returns: a field name; or, for a filter key that names an
  inherited member, that member; or, when the data source name itself names an inherited
  member, a property of that member, which is not modelled.
\<close>

datatype resolved = Field string | Inherited_member string | Unmodelled

definition NL :: string where
  "NL = [CHR 0x0A]"

definition SQ :: string where
  "SQ = [CHR 0x27]"

text \<open>
  An optional string is truthy when it is present and not empty.  The exceptions met are
  a \<^verbatim>\<open>TypeError\<close> and the error of the query collaborator with its message.
\<close>

definition truthy :: "string option \<Rightarrow> bool" where
  "truthy v = (case v of Some s \<Rightarrow> s \<noteq> [] | None \<Rightarrow> False)"

datatype failure = TypeError | ExecutionError string

text \<open>\<^verbatim>\<open>a || b\<close> on strings: the empty string is falsy.\<close>

definition or_str :: "string \<Rightarrow> string \<Rightarrow> string" where
  "or_str a b = (if a = [] then b else a)"

subsection \<open>Numbers\<close>

text \<open>
  A \<^verbatim>\<open>number\<close> is an IEEE 754 binary64 value, here the rational it denotes.  \<open>to_double\<close>
  rounds a rational to the nearest value with a 53-bit significand, ties to even (the
  numbers met here are far from the ends of the exponent range); a numeric literal
  denotes the rounding of its decimal value, and \<^verbatim>\<open>a + b\<close> the rounding of the exact sum.
\<close>

definition pow2 :: "int \<Rightarrow> rat" where
  "pow2 k = (if 0 \<le> k then 2 ^ nat k else 1 / 2 ^ nat (- k))"

definition binade :: "rat \<Rightarrow> int" where
  "binade x = (let pq = quotient_of x; k = bitlen (fst pq) - bitlen (snd pq)
               in if pow2 k \<le> x then k else k - 1)"

definition round_half_even :: "rat \<Rightarrow> int" where
  "round_half_even x =
     (let f = \<lfloor>x\<rfloor>; d = x - of_int f
      in if d < 1 / 2 then f else if 1 / 2 < d then f + 1 else if even f then f else f + 1)"

definition to_double :: "rat \<Rightarrow> rat" where
  "to_double x =
     (if x = 0 then 0
      else (let u = pow2 (binade \<bar>x\<bar> - 52) in of_int (round_half_even (x / u)) * u))"

definition js_add :: "rat \<Rightarrow> rat \<Rightarrow> rat" where
  "js_add a b = to_double (a + b)"

section \<open>The translation result (\<^verbatim>\<open>LQLQueryResult\<close>)\<close>

datatype pval = PStr string | PBool bool

record TimeRange =
  start :: int
  endT :: int

record LQLQueryResult =
  query :: string
  category :: string
  suggestedName :: string
  parameters :: "(string \<times> pval) list"
  timeRange :: "TimeRange option"
  confidence :: rat

section \<open>The translator (\<^verbatim>\<open>LQLGenerator\<close>, \<^verbatim>\<open>src/generators/lql-generator.ts\<close>)\<close>

record DataSourceMapping =
  dm_keywords :: "string list"
  lqlSource :: string
  commonFields :: "string list"
  dm_description :: string

text \<open>What a pattern's \<^verbatim>\<open>generator\<close> returns (a \<^verbatim>\<open>Partial<LQLQueryResult>\<close>).\<close>

record PatternResult =
  pr_category :: string
  pr_parameters :: "(string \<times> pval) list"
  pr_suggestedName :: string

definition dataSources :: "(string \<times> DataSourceMapping) list" where
  "dataSources =
     [(''aws-ec2'', \<lparr>dm_keywords = [''ec2'', ''instance'', ''instances'', ''virtual machine'', ''vm''],
         lqlSource = ''CloudTrailRawEvents'',
         commonFields = [''EVENT_NAME'', ''AWS_REGION'', ''SOURCE_IP_ADDRESS'', ''USER_NAME''],
         dm_description = ''AWS EC2 instances and events''\<rparr>),
      (''aws-s3'', \<lparr>dm_keywords = [''s3'', ''bucket'', ''storage'', ''object storage''],
         lqlSource = ''CloudTrailRawEvents'',
         commonFields = [''EVENT_NAME'', ''AWS_REGION'', ''BUCKET_NAME'', ''OBJECT_KEY''],
         dm_description = ''AWS S3 buckets and objects''\<rparr>),
      (''aws-compliance'', \<lparr>dm_keywords = [''compliance'', ''cis'', ''benchmark'', ''policy'', ''violation''],
         lqlSource = ''ComplianceEvaluationDetails'',
         commonFields = [''EVAL_TYPE'', ''STATUS'', ''SEVERITY'', ''RESOURCE_ID''],
         dm_description = ''AWS compliance evaluations''\<rparr>),
      (''containers'', \<lparr>dm_keywords = [''container'', ''docker'', ''image'', ''vulnerability'', ''cve''],
         lqlSource = ''ContainerVulnDetails'',
         commonFields = [''IMAGE_DIGEST'', ''SEVERITY'', ''CVE_ID'', ''NAMESPACE''],
         dm_description = ''Container vulnerabilities and images''\<rparr>),
      (''kubernetes'', \<lparr>dm_keywords = [''kubernetes'', ''k8s'', ''pod'', ''deployment'', ''service''],
         lqlSource = ''KubernetesActivity'',
         commonFields = [''CLUSTER_NAME'', ''NAMESPACE'', ''RESOURCE_TYPE'', ''ACTION''],
         dm_description = ''Kubernetes cluster activities''\<rparr>),
      (''network'', \<lparr>dm_keywords = [''network'', ''connection'', ''traffic'', ''lateral movement'', ''communication''],
         lqlSource = ''NetworkActivity'',
         commonFields = [''SOURCE_IP'', ''DEST_IP'', ''PORT'', ''PROTOCOL''],
         dm_description = ''Network communications and activities''\<rparr>),
      (''users'', \<lparr>dm_keywords = [''user'', ''login'', ''authentication'', ''access'', ''identity''],
         lqlSource = ''UserActivity'',
         commonFields = [''USER_NAME'', ''SOURCE_IP'', ''ACTION'', ''STATUS''],
         dm_description = ''User activities and authentication events''\<rparr>)]"

text \<open>The six patterns, all with the flag \<^verbatim>\<open>i\<close>, in the order of the source.\<close>

definition queryPatterns :: "(re \<times> PatternResult) list" where
  "queryPatterns =
     [(seqs [alts [Lit ''show'', Lit ''get'', Lit ''find'', Lit ''list''], Star Dot,
             alts [Lit ''high'', Lit ''critical''], Star Dot, alts [Lit ''risk'', Lit ''score'']],
       \<lparr>pr_category = ''risk-assessment'',
        pr_parameters = [(''risk_threshold'', PStr ''high''), (''severity'', PStr ''high'')],
        pr_suggestedName = ''high-risk-assets''\<rparr>),
      (seqs [alts [Lit ''compliance'', Lit ''cis'', Lit ''benchmark''], Star Dot,
             alts [Lit ''fail'', Lit ''violation'', Lit ''issue'']],
       \<lparr>pr_category = ''compliance'',
        pr_parameters = [(''status'', PStr ''fail'')],
        pr_suggestedName = ''compliance-violations''\<rparr>),
      (seqs [alts [Lit ''vulnerabilit'', Lit ''cve'', Lit ''security''], Star Dot,
             alts [Lit ''critical'', Lit ''high'']],
       \<lparr>pr_category = ''vulnerabilities'',
        pr_parameters = [(''severity'', PStr ''critical,high'')],
        pr_suggestedName = ''critical-vulnerabilities''\<rparr>),
      (seqs [Lit ''aws'', Star Dot, alts [Lit ''ec2'', Lit ''instance''], Star Dot,
             alts [Lit ''unencrypt'', Lit ''public'', Lit ''expose'']],
       \<lparr>pr_category = ''aws-security'',
        pr_parameters = [(''cloud_provider'', PStr ''aws''), (''resource_type'', PStr ''ec2'')],
        pr_suggestedName = ''aws-insecure-ec2''\<rparr>),
      (seqs [Lit ''container'', Star Dot, alts [Lit ''vulnerabilit'', Lit ''cve'', Lit ''insecure'']],
       \<lparr>pr_category = ''container-security'',
        pr_parameters = [(''resource_type'', PStr ''container'')],
        pr_suggestedName = ''container-vulnerabilities''\<rparr>),
      (alts [seqs [Lit ''lateral'', Dot, Lit ''movement''],
             seqs [Lit ''suspicious'', Star Dot, Lit ''network''],
             seqs [Lit ''unusual'', Star Dot, Lit ''connection'']],
       \<lparr>pr_category = ''threat-detection'',
        pr_parameters = [(''activity_type'', PStr ''network''), (''anomaly'', PBool True)],
        pr_suggestedName = ''lateral-movement-detection''\<rparr>)]"

text \<open>The first mapping, in insertion order, one of whose keywords occurs in the query.\<close>

definition identifyDataSource :: "string \<Rightarrow> DataSourceMapping option" where
  "identifyDataSource query' =
     find (\<lambda>mapping. list_ex (\<lambda>keyword. js_includes query' keyword) (dm_keywords mapping))
       (map snd dataSources)"

definition matchQueryPattern :: "string \<Rightarrow> PatternResult option" where
  "matchQueryPattern query' =
     map_option snd (find (\<lambda>p. re_test (fst p) True query') queryPatterns)"

text \<open>
  The checks of \<^verbatim>\<open>extractFilters\<close> in the order of the source, each with the property it
  assigns; a later assignment to the same property overwrites the earlier one.
\<close>

definition filter_rules :: "string \<Rightarrow> (bool \<times> string \<times> string) list" where
  "filter_rules query' =
     [(js_includes query' ''high risk'' \<or> js_includes query' ''high score'', ''risk_score'', ''>= 7''),
      (js_includes query' ''critical'', ''severity'', ''critical''),
      (js_includes query' ''high'' \<and> (js_includes query' ''severity'' \<or> js_includes query' ''priority''),
         ''severity'', ''high''),
      (js_includes query' ''aws'', ''cloud_provider'', ''aws''),
      (js_includes query' ''gcp'' \<or> js_includes query' ''google cloud'', ''cloud_provider'', ''gcp''),
      (js_includes query' ''azure'', ''cloud_provider'', ''azure''),
      (js_includes query' ''ec2'', ''resource_type'', ''ec2''),
      (js_includes query' ''s3'' \<or> js_includes query' ''bucket'', ''resource_type'', ''s3''),
      (js_includes query' ''container'', ''resource_type'', ''container''),
      (js_includes query' ''fail'' \<or> js_includes query' ''violation'', ''status'', ''fail''),
      (js_includes query' ''active'' \<or> js_includes query' ''running'', ''status'', ''active''),
      (js_includes query' ''unencrypt'', ''encrypted'', ''false''),
      (js_includes query' ''public'' \<or> js_includes query' ''expose'', ''public_access'', ''true'')]"

definition assign_rule :: "bool \<times> string \<times> string \<Rightarrow> (string \<times> string) list \<Rightarrow> (string \<times> string) list" where
  "assign_rule rule filters =
     (if fst rule then map_set (fst (snd rule)) (snd (snd rule)) filters else filters)"

definition extractFilters :: "string \<Rightarrow> (string \<times> string) list" where
  "extractFilters query' = fold assign_rule (filter_rules query') []"

text \<open>The relative-time phrases (flag \<^verbatim>\<open>i\<close>) with their hours; the first match wins.\<close>

definition time_ranges :: "(re \<times> int) list" where
  "time_ranges =
     [(alts [Lit ''last hour'', Lit ''past hour''], 1),
      (alts [Seq (Lit ''last 24 hour'') (Opt (Lit ''s'')), Seq (Lit ''past 24 hour'') (Opt (Lit ''s'')),
             Lit ''today''], 24),
      (alts [Lit ''last week'', Lit ''past week''], 24 * 7),
      (alts [Lit ''last month'', Lit ''past month''], 24 * 30),
      (alts [Seq (Lit ''last 7 day'') (Opt (Lit ''s'')), Seq (Lit ''past 7 day'') (Opt (Lit ''s''))], 24 * 7),
      (alts [Seq (Lit ''last 30 day'') (Opt (Lit ''s'')), Seq (Lit ''past 30 day'') (Opt (Lit ''s''))], 24 * 30)]"

definition extractTimeRange :: "int \<Rightarrow> string \<Rightarrow> TimeRange" where
  "extractTimeRange now query' =
     (case find (\<lambda>r. re_test (fst r) True query') time_ranges of
        Some r \<Rightarrow> \<lparr>start = now - snd r * 60 * 60 * 1000, endT = now\<rparr>
      | None \<Rightarrow> \<lparr>start = now - 24 * 60 * 60 * 1000, endT = now\<rparr>)"

definition inferDataSourceFromQuery :: "string \<Rightarrow> string" where
  "inferDataSourceFromQuery query' =
     (let lowerQuery = js_toLowerCase query' in
      if js_includes lowerQuery ''compliance'' \<or> js_includes lowerQuery ''cis''
         \<or> js_includes lowerQuery ''benchmark'' then ''ComplianceEvaluationDetails''
      else if js_includes lowerQuery ''vulnerabilit'' \<or> js_includes lowerQuery ''cve'' then
        (if js_includes lowerQuery ''container'' then ''ContainerVulnDetails'' else ''VulnDetails'')
      else if js_includes lowerQuery ''kubernetes'' \<or> js_includes lowerQuery ''k8s'' then ''KubernetesActivity''
      else if js_includes lowerQuery ''network'' \<or> js_includes lowerQuery ''connection'' then ''NetworkActivity''
      else if js_includes lowerQuery ''user'' \<or> js_includes lowerQuery ''login''
         \<or> js_includes lowerQuery ''auth'' then ''UserActivity''
      else ''CloudTrailRawEvents'')"

definition fieldMappings :: "(string \<times> (string \<times> string) list) list" where
  "fieldMappings =
     [(''CloudTrailRawEvents'',
         [(''cloud_provider'', ''AWS_REGION''), (''resource_type'', ''EVENT_NAME''),
          (''severity'', ''ERROR_CODE''), (''risk_score'', ''RISK_SCORE''),
          (''status'', ''STATUS''), (''user_name'', ''USER_NAME'')]),
      (''ComplianceEvaluationDetails'',
         [(''severity'', ''SEVERITY''), (''status'', ''STATUS''),
          (''resource_type'', ''EVAL_TYPE''), (''risk_score'', ''RISK_SCORE'')]),
      (''ContainerVulnDetails'',
         [(''severity'', ''SEVERITY''), (''cve_id'', ''CVE_ID''),
          (''risk_score'', ''CVE_SCORE''), (''image_digest'', ''IMAGE_DIGEST'')]),
      (''VulnDetails'',
         [(''severity'', ''SEVERITY''), (''cve_id'', ''CVE_ID''), (''risk_score'', ''CVE_SCORE'')])]"

text \<open>\<^verbatim>\<open>mapping?.[filterKey] || filterKey.toUpperCase()\<close> for a table of field names.\<close>

definition static_field :: "(string \<times> (string \<times> string) list) list \<Rightarrow> string \<Rightarrow> string \<Rightarrow> resolved" where
  "static_field table filterKey dataSource =
     (case obj_get table dataSource of
        Undefined \<Rightarrow> Field (js_toUpperCase filterKey)
      | Inherited m \<Rightarrow> Unmodelled
      | Own mapping \<Rightarrow>
          (case obj_get mapping filterKey of
             Undefined \<Rightarrow> Field (js_toUpperCase filterKey)
           | Inherited m \<Rightarrow> Inherited_member m
           | Own f \<Rightarrow> Field (or_str f (js_toUpperCase filterKey))))"

definition mapFieldName :: "string \<Rightarrow> string \<Rightarrow> resolved" where
  "mapFieldName filterKey dataSource = static_field fieldMappings filterKey dataSource"

text \<open>
  The condition \<^verbatim>\<open>buildLQLQuery\<close> writes for one filter.  The field name is spliced into
  the text; where the resolver returns no field name the text is not modelled (\<open>None\<close>).
\<close>

definition filter_condition :: "string \<Rightarrow> string \<Rightarrow> string \<Rightarrow> string option" where
  "filter_condition source key value =
     (case mapFieldName key source of
        Field f \<Rightarrow>
          Some (if js_startsWith value ''>='' \<or> js_startsWith value ''<=''
                then f @ '' '' @ take 2 value @ '' '' @ js_trim (drop 2 value)
                else if value = ''true'' \<or> value = ''false''
                then f @ '' = '' @ value
                else if js_includes value '',''
                then f @ '' IN ('' @
                       js_join '', '' (map (\<lambda>v. SQ @ js_trim v @ SQ) (split_char CHR '','' value)) @ '')''
                else f @ '' = '' @ SQ @ value @ SQ)
      | _ \<Rightarrow> None)"

definition buildLQLQuery ::
  "DataSourceMapping option \<Rightarrow> PatternResult option \<Rightarrow> (string \<times> string) list \<Rightarrow> string \<Rightarrow> string option" where
  "buildLQLQuery dataSource pattern filters originalQuery =
     (let source = (case dataSource of
                      Some d \<Rightarrow> if lqlSource d \<noteq> [] then lqlSource d else inferDataSourceFromQuery originalQuery
                    | None \<Rightarrow> inferDataSourceFromQuery originalQuery);
          query0 = ''SELECT *'' @ NL @ ''FROM '' @ source
      in case those (map (\<lambda>kv. filter_condition source (fst kv) (snd kv)) filters) of
           None \<Rightarrow> None
         | Some conds \<Rightarrow>
             (let whereConditions =
                    conds
                    @ (if js_includes (js_toLowerCase originalQuery) ''fail''
                          \<and> source = ''ComplianceEvaluationDetails''
                       then [''STATUS = '' @ SQ @ ''fail'' @ SQ] else [])
                    @ (if js_includes (js_toLowerCase originalQuery) ''critical''
                          \<and> js_includes source ''Vuln''
                       then [''SEVERITY = '' @ SQ @ ''critical'' @ SQ] else []);
                  query1 = (if length whereConditions > 0
                            then query0 @ NL @ ''WHERE '' @ js_join (NL @ ''  AND '') whereConditions
                            else query0);
                  query2 = (if js_includes source ''Vuln'' \<or> js_includes source ''Compliance''
                            then query1 @ NL @ ''ORDER BY SEVERITY DESC''
                            else if source = ''CloudTrailRawEvents''
                            then query1 @ NL @ ''ORDER BY EVENT_TIME DESC''
                            else query1)
              in Some (query2 @ NL @ ''LIMIT 100'')))"

text \<open>
  \<^verbatim>\<open>generateName\<close>: the characters other than \<^verbatim>\<open>\w\<close> and \<^verbatim>\<open>\s\<close> are removed, the text
  is split at white space, and the first four words longer than two characters and not
  in the stop list are joined.
\<close>

definition generateName :: "string \<Rightarrow> string" where
  "generateName query' =
     (let words = filter (\<lambda>word. length word > 2 \<and>
                    word \<notin> set [''show'', ''get'', ''find'', ''list'', ''with'', ''that'', ''have''])
                    (split_ws (filter (\<lambda>c. is_word c \<or> is_space c) (js_toLowerCase query')))
      in ''lacework-'' @ js_join ''-'' (take 4 words))"

definition calculateConfidence ::
  "DataSourceMapping option \<Rightarrow> PatternResult option \<Rightarrow> (string \<times> string) list \<Rightarrow> rat" where
  "calculateConfidence dataSource pattern filters =
     (let confidence0 = to_double (5 / 10);
          confidence1 = (if dataSource \<noteq> None then js_add confidence0 (to_double (2 / 10)) else confidence0);
          confidence2 = (if pattern \<noteq> None then js_add confidence1 (to_double (2 / 10)) else confidence1);
          confidence3 = (if length filters > 0 then js_add confidence2 (to_double (1 / 10)) else confidence2)
      in min confidence3 (to_double 1))"

text \<open>\<^verbatim>\<open>{ ...a, ...b }\<close>: the properties of \<open>b\<close> are assigned, in order, over those of \<open>a\<close>.\<close>

definition spread :: "('k \<times> 'v) list \<Rightarrow> ('k \<times> 'v) list \<Rightarrow> ('k \<times> 'v) list" where
  "spread a b = fold (\<lambda>kv m. map_set (fst kv) (snd kv) m) b a"

definition generateFromNaturalLanguage :: "int \<Rightarrow> string \<Rightarrow> LQLQueryResult option" where
  "generateFromNaturalLanguage now naturalQuery =
     (let lowerQuery = js_toLowerCase naturalQuery;
          dataSource = identifyDataSource lowerQuery;
          pattern = matchQueryPattern naturalQuery;
          filters = extractFilters lowerQuery
      in case buildLQLQuery dataSource pattern filters naturalQuery of
           None \<Rightarrow> None
         | Some lqlQuery \<Rightarrow>
             Some \<lparr>query = lqlQuery,
                   category = (case pattern of Some p \<Rightarrow> or_str (pr_category p) ''general''
                                             | None \<Rightarrow> ''general''),
                   suggestedName = (case pattern of
                                      Some p \<Rightarrow> or_str (pr_suggestedName p) (generateName naturalQuery)
                                    | None \<Rightarrow> generateName naturalQuery),
                   parameters = spread (case pattern of Some p \<Rightarrow> pr_parameters p | None \<Rightarrow> [])
                                  (map (\<lambda>kv. (fst kv, PStr (snd kv))) filters),
                   timeRange = Some (extractTimeRange now lowerQuery),
                   confidence = calculateConfidence dataSource pattern filters\<rparr>)"

section \<open>The data source catalog (\<^verbatim>\<open>DataSourceExplorer\<close>)\<close>

text \<open>
  The rows a query returns are parsed JSON.  A number is given by whether it is an
  integer and by its decimal text; an object by its own properties in the order of
  enumeration.  Members that a value inherits from a built-in prototype are not modelled.
\<close>

datatype json = JNull | JBool bool | JNum bool string | JStr string | JArr "json list" | JObj "(string \<times> json) list"

record FieldInfo =
  f_name :: string
  f_type :: string
  f_description :: "string option"
  sampleValues :: "string list option"
  nullable :: "bool option"

record DataSourceInfo =
  ds_name :: string
  ds_category :: string
  ds_description :: string
  ds_fields :: "FieldInfo list option"
  sampleData :: "json list option"








definition source_info :: "string \<Rightarrow> string \<Rightarrow> string \<Rightarrow> DataSourceInfo" where
  "source_info n c d = \<lparr>ds_name = n, ds_category = c, ds_description = d, ds_fields = None, sampleData = None\<rparr>"


definition getKnownDataSources :: "DataSourceInfo list" where
  "getKnownDataSources =
     [source_info ''LW_CFG_AWS_EC2_INSTANCES'' ''AWS'' ''AWS EC2 instances configuration and state'',
      source_info ''LW_CFG_AWS_S3'' ''AWS'' ''AWS S3 buckets configuration and policies'',
      source_info ''LW_CFG_AZURE_COMPUTE_VIRTUALMACHINES'' ''Azure'' ''Azure virtual machines configuration'',
      source_info ''CloudTrailRawEvents'' ''Activity'' ''AWS CloudTrail API activity events'',
      source_info ''ContainerVulnDetails'' ''Containers'' ''Container vulnerability scan results'',
      source_info ''ComplianceEvaluationDetails'' ''Compliance'' ''Compliance policy evaluation results'']"

subsection \<open>\<^verbatim>\<open>discoverDataSources\<close>\<close>





subsection \<open>\<^verbatim>\<open>discoverFields\<close>\<close>

text \<open>\<^verbatim>\<open>Object.entries(v)\<close>; it raises on \<^verbatim>\<open>null\<close>.\<close>

definition object_entries :: "json \<Rightarrow> failure + (string \<times> json) list" where
  "object_entries v =
     (case v of
        JNull \<Rightarrow> Inl TypeError
      | JObj kv \<Rightarrow> Inr kv
      | JArr xs \<Rightarrow> Inr (zip (map string_of_nat [0 ..< length xs]) xs)
      | JStr s \<Rightarrow> Inr (zip (map string_of_nat [0 ..< length s]) (map (\<lambda>c. JStr [c]) s))
      | _ \<Rightarrow> Inr [])"

text \<open>
  \<^verbatim>\<open>item[k]\<close>; it raises on \<^verbatim>\<open>null\<close>, and \<open>None\<close> is \<^verbatim>\<open>undefined\<close>.  Only the own properties
  of the value are read.
\<close>

definition js_prop :: "json \<Rightarrow> string \<Rightarrow> failure + json option" where
  "js_prop item k =
     (case item of
        JNull \<Rightarrow> Inl TypeError
      | JObj kv \<Rightarrow> Inr (map_of kv k)
      | JArr xs \<Rightarrow> Inr (if k = ''length'' then Some (JNum True (string_of_nat (length xs)))
                        else map_of (zip (map string_of_nat [0 ..< length xs]) xs) k)
      | JStr s \<Rightarrow> Inr (if k = ''length'' then Some (JNum True (string_of_nat (length s)))
                        else map_of (zip (map string_of_nat [0 ..< length s]) (map (\<lambda>c. JStr [c]) s)) k)
      | _ \<Rightarrow> Inr None)"

fun js_String :: "json \<Rightarrow> string" where
  "js_String JNull = ''null''"
| "js_String (JBool b) = (if b then ''true'' else ''false'')"
| "js_String (JNum i s) = s"
| "js_String (JStr s) = s"
| "js_String (JArr xs) = js_join '','' (map (\<lambda>x. if x = JNull then [] else js_String x) xs)"
| "js_String (JObj kv) = ''[object Object]''"

text \<open>A loop whose body may raise: the first exception ends it.\<close>

fun collect :: "('a \<Rightarrow> failure + 'b) \<Rightarrow> 'a list \<Rightarrow> failure + 'b list" where
  "collect f [] = Inr []"
| "collect f (x # xs) =
     (case f x of
        Inl e \<Rightarrow> Inl e
      | Inr y \<Rightarrow> (case collect f xs of Inl e \<Rightarrow> Inl e | Inr ys \<Rightarrow> Inr (y # ys)))"

text \<open>\<^verbatim>\<open>[...new Set(values)]\<close>: the first occurrence of each value, in order.\<close>

fun dedup :: "'a list \<Rightarrow> 'a list" where
  "dedup [] = []"
| "dedup (x # xs) = x # dedup (filter (\<lambda>y. y \<noteq> x) xs)"

definition extractSampleValues :: "string \<Rightarrow> json list \<Rightarrow> failure + string list" where
  "extractSampleValues fieldName data =
     (case collect (\<lambda>item. js_prop item fieldName) data of
        Inl e \<Rightarrow> Inl e
      | Inr vals \<Rightarrow>
          Inr (dedup (take 3 (map (\<lambda>v. take 50 (js_String (the v)))
                               (filter (\<lambda>v. v \<noteq> None \<and> v \<noteq> Some JNull) vals)))))"

definition inferFieldType :: "json \<Rightarrow> string" where
  "inferFieldType v =
     (case v of
        JNull \<Rightarrow> ''null''
      | JBool b \<Rightarrow> ''boolean''
      | JNum i s \<Rightarrow> (if i then ''integer'' else ''float'')
      | JStr s \<Rightarrow>
          (if re_test (seqs [Bol, Digit, Digit, Digit, Digit, Lit ''-'', Digit, Digit, Lit ''-'', Digit, Digit,
                             Lit ''T'', Digit, Digit, Lit '':'', Digit, Digit, Lit '':'', Digit, Digit]) False s
           then ''timestamp''
           else if re_test (seqs [Bol, Plus Digit, Lit ''.'', Plus Digit, Lit ''.'', Plus Digit, Lit ''.'',
                                  Plus Digit, Eol]) False s
           then ''ip_address''
           else if re_test (Seq Bol (Lit ''arn:aws:'')) False s then ''aws_arn''
           else ''string'')
      | _ \<Rightarrow> ''object'')"

definition generateFieldDescription :: "string \<Rightarrow> string \<Rightarrow> string" where
  "generateFieldDescription fieldName sourceName =
     (let field = js_toUpperCase fieldName in
      if js_includes field ''ID'' then ''Unique identifier''
      else if js_includes field ''TIME'' then ''Timestamp field''
      else if js_includes field ''REGION'' then ''Cloud region location''
      else if js_includes field ''ACCOUNT'' then ''Cloud account identifier''
      else if js_includes field ''USER'' then ''User or principal name''
      else if js_includes field ''RESOURCE'' then ''Resource identifier or configuration''
      else if js_includes field ''ERROR'' then ''Error code or message''
      else if js_includes field ''STATUS'' then ''Status or state field''
      else if js_includes field ''SEVERITY'' then ''Severity level''
      else if js_includes field ''SCORE'' then ''Risk or priority score''
      else if js_includes field ''CONFIG'' then ''Configuration data''
      else if js_includes field ''EVENT'' then ''Event data or name''
      else if js_includes field ''SOURCE'' then ''Event or data source''
      else if js_includes field ''IP'' then ''IP address''
      else if js_includes field ''PORT'' then ''Network port''
      else if js_includes field ''PROTOCOL'' then ''Network protocol''
      else ''Field from '' @ sourceName)"

definition known_field :: "string \<Rightarrow> string \<Rightarrow> string \<Rightarrow> FieldInfo" where
  "known_field n t d = \<lparr>f_name = n, f_type = t, f_description = Some d, sampleValues = None, nullable = None\<rparr>"

definition knownFields :: "(string \<times> FieldInfo list) list" where
  "knownFields =
     [(''LW_CFG_AWS_EC2_INSTANCES'',
         [known_field ''RESOURCE_ID'' ''string'' ''EC2 instance ID'',
          known_field ''RESOURCE_REGION'' ''string'' ''AWS region'',
          known_field ''ACCOUNT_ID'' ''string'' ''AWS account ID'',
          known_field ''RESOURCE_CONFIG'' ''object'' ''Instance configuration'',
          known_field ''URN'' ''string'' ''Unique resource identifier'']),
      (''LW_CFG_AZURE_COMPUTE_VIRTUALMACHINES'',
         [known_field ''RESOURCE_ID'' ''string'' ''Azure VM resource ID'',
          known_field ''RESOURCE_REGION'' ''string'' ''Azure region'',
          known_field ''SUBSCRIPTION_ID'' ''string'' ''Azure subscription ID'',
          known_field ''RESOURCE_CONFIG'' ''object'' ''VM configuration'',
          known_field ''RESOURCE_GROUP'' ''string'' ''Azure resource group'']),
      (''CloudTrailRawEvents'',
         [known_field ''EVENT_TIME'' ''timestamp'' ''Event timestamp'',
          known_field ''EVENT_NAME'' ''string'' ''API call name'',
          known_field ''EVENT_SOURCE'' ''string'' ''AWS service'',
          known_field ''ERROR_CODE'' ''string'' ''Error code if failed'',
          known_field ''USER_NAME'' ''string'' ''User or role name''])]"

text \<open>
  What \<^verbatim>\<open>getKnownFields\<close> returns, \<^verbatim>\<open>knownFields[sourceName] || []\<close>: a list of fields, or
  for a source name that names an inherited member, that member.
\<close>

datatype fields_result = Fields "FieldInfo list" | Member string

definition getKnownFields :: "string \<Rightarrow> fields_result" where
  "getKnownFields sourceName =
     (case obj_get knownFields sourceName of
        Own fs \<Rightarrow> Fields fs
      | Undefined \<Rightarrow> Fields []
      | Inherited m \<Rightarrow> Member m)"

text \<open>
  \<^verbatim>\<open>xs.sort((a, b) => a.name.localeCompare(b.name))\<close>.  The collation of the locale is a
  parameter: \<open>lc a b\<close> says that \<^verbatim>\<open>a.localeCompare(b)\<close> is not positive.  The sort is
  stable.
\<close>

fun insert_by :: "(string \<Rightarrow> string \<Rightarrow> bool) \<Rightarrow> FieldInfo \<Rightarrow> FieldInfo list \<Rightarrow> FieldInfo list" where
  "insert_by lc x [] = [x]"
| "insert_by lc x (y # ys) = (if lc (f_name x) (f_name y) then x # y # ys else y # insert_by lc x ys)"

definition sort_by_name :: "(string \<Rightarrow> string \<Rightarrow> bool) \<Rightarrow> FieldInfo list \<Rightarrow> FieldInfo list" where
  "sort_by_name lc xs = foldr (insert_by lc) xs []"

definition field_of_entry :: "string \<Rightarrow> json list \<Rightarrow> string \<times> json \<Rightarrow> failure + FieldInfo" where
  "field_of_entry sourceName data entry =
     (case extractSampleValues (fst entry) (take 5 data) of
        Inl e \<Rightarrow> Inl e
      | Inr samples \<Rightarrow>
          Inr \<lparr>f_name = fst entry,
               f_type = inferFieldType (snd entry),
               f_description = Some (generateFieldDescription (fst entry) sourceName),
               sampleValues = Some samples,
               nullable = Some (snd entry = JNull)\<rparr>)"

text \<open>
  \<open>outcome\<close> is what the sample query gives (\<^verbatim>\<open>laceworkHandler.executeQuery\<close>): its rows,
  or a failure.  The body of the \<^verbatim>\<open>try\<close> block:
\<close>

definition discoverFields_try ::
  "(string \<Rightarrow> string \<Rightarrow> bool) \<Rightarrow> (failure + json list) \<Rightarrow> string \<Rightarrow> failure + fields_result" where
  "discoverFields_try lc outcome sourceName =
     (case outcome of
        Inl e \<Rightarrow> Inl e
      | Inr data \<Rightarrow>
          (if length data > 0 then
             (case object_entries (hd data) of
                Inl e \<Rightarrow> Inl e
              | Inr entries \<Rightarrow>
                  (case collect (field_of_entry sourceName data) entries of
                     Inl e \<Rightarrow> Inl e
                   | Inr fs \<Rightarrow> Inr (Fields (sort_by_name lc fs))))
           else
             (case getKnownFields sourceName of
                Fields known \<Rightarrow> Inr (Fields (sort_by_name lc known))
              | Member m \<Rightarrow> Inl TypeError)))"

definition discoverFields ::
  "(string \<Rightarrow> string \<Rightarrow> bool) \<Rightarrow> (failure + json list) \<Rightarrow> string \<Rightarrow> failure + fields_result" where
  "discoverFields lc outcome sourceName =
     (case discoverFields_try lc outcome sourceName of
        Inr r \<Rightarrow> Inr r
      | Inl e \<Rightarrow> Inr (getKnownFields sourceName))"

section \<open>The field resolvers\<close>

subsection \<open>\<^verbatim>\<open>QueryBuilder.mapFilterToField\<close>\<close>






subsection \<open>\<^verbatim>\<open>LQLGenerator.mapFieldName\<close> of the generator with dynamic discovery\<close>



section \<open>The dynamic tool registry (\<^verbatim>\<open>DynamicToolRegistry\<close>)\<close>

record SchemaProperty =
  sp_type :: string
  sp_enum :: "string list option"
  sp_description :: string

record InputSchema =
  is_type :: string
  properties :: "(string \<times> SchemaProperty) list"
  required :: "string list"

text \<open>
  The \<^verbatim>\<open>generator\<close> of a tool is the closure
  \<^verbatim>\<open>async (args) => this.executeDynamicQuery(lqlQuery, args, naturalLanguage)\<close>;
  it is represented by the two values it captures.
\<close>

record Generator =
  gen_lqlQuery :: LQLQueryResult
  gen_naturalLanguage :: string

record DynamicTool =
  name :: string
  description :: string
  inputSchema :: InputSchema
  generator :: Generator
  queryPattern :: "LQLQueryResult option"
  created :: int
  lastUsed :: "int option"
  usageCount :: int

type_synonym registry = "(string \<times> DynamicTool) list"

subsection \<open>Names and schemas\<close>

definition generateToolName :: "string \<Rightarrow> string \<Rightarrow> string" where
  "generateToolName description' category' =
     (let words = filter (\<lambda>word. length word > 2 \<and>
                    word \<notin> set [''show'', ''get'', ''find'', ''list'', ''with'', ''that'', ''have'',
                                ''the'', ''and'', ''for'', ''me'', ''all''])
                    (split_ws (filter (\<lambda>c. is_word c \<or> is_space c) (js_toLowerCase description')));
          prefix = (if category' = ''aws'' then ''get-aws''
                    else if category' = ''containers'' then ''get-container''
                    else if category' = ''compliance'' then ''get-compliance''
                    else if category' = ''threats'' then ''find-threat''
                    else ''get'');
          suffix = js_join ''-'' (take 3 words)
      in prefix @ ''-'' @ suffix)"

definition schema_property :: "string \<Rightarrow> string \<times> SchemaProperty" where
  "schema_property key =
     (if key = ''severity'' then
        (''severity'', \<lparr>sp_type = ''string'', sp_enum = Some [''low'', ''medium'', ''high'', ''critical''],
                        sp_description = ''Filter by severity level''\<rparr>)
      else if key = ''cloud_provider'' then
        (''cloudProvider'', \<lparr>sp_type = ''string'', sp_enum = Some [''aws'', ''gcp'', ''azure''],
                             sp_description = ''Filter by cloud provider''\<rparr>)
      else if key = ''region'' then
        (''region'', \<lparr>sp_type = ''string'', sp_enum = None, sp_description = ''Filter by cloud region''\<rparr>)
      else if key = ''status'' then
        (''status'', \<lparr>sp_type = ''string'', sp_enum = Some [''active'', ''inactive'', ''fail'', ''pass''],
                      sp_description = ''Filter by status''\<rparr>)
      else if key = ''resource_type'' then
        (''resourceType'', \<lparr>sp_type = ''string'', sp_enum = None,
                            sp_description = ''Filter by resource type''\<rparr>)
      else
        (key, \<lparr>sp_type = ''string'', sp_enum = None, sp_description = ''Filter by '' @ key\<rparr>))"

definition generateInputSchema :: "LQLQueryResult \<Rightarrow> InputSchema" where
  "generateInputSchema lqlQuery =
     \<lparr>is_type = ''object'',
      properties =
        fold (\<lambda>kv props. map_set (fst (schema_property (fst kv))) (snd (schema_property (fst kv))) props)
          (parameters lqlQuery)
          [(''startTime'', \<lparr>sp_type = ''string'', sp_enum = None,
              sp_description = ''Start time for the query (ISO 8601 format, optional)''\<rparr>),
           (''endTime'', \<lparr>sp_type = ''string'', sp_enum = None,
              sp_description = ''End time for the query (ISO 8601 format, optional)''\<rparr>)],
      required = []\<rparr>"

text \<open>
  \<^verbatim>\<open>createDynamicTool\<close>; \<open>None\<close> is the \<^verbatim>\<open>null\<close> of its \<^verbatim>\<open>catch\<close> branch, which nothing
  in the body reaches for a well-typed request.
\<close>

definition createDynamicTool :: "int \<Rightarrow> string \<Rightarrow> string \<Rightarrow> LQLQueryResult \<Rightarrow> DynamicTool option" where
  "createDynamicTool now name' naturalLanguage lqlQuery =
     Some \<lparr>name = name',
           description = ''Dynamically generated tool: '' @ naturalLanguage,
           inputSchema = generateInputSchema lqlQuery,
           generator = \<lparr>gen_lqlQuery = lqlQuery, gen_naturalLanguage = naturalLanguage\<rparr>,
           queryPattern = Some lqlQuery,
           created = now,
           lastUsed = None,
           usageCount = 0\<rparr>"

subsection \<open>\<^verbatim>\<open>registerToolFromQuery\<close>\<close>

definition registerToolFromQuery :: "int \<Rightarrow> LQLQueryResult \<Rightarrow> string \<Rightarrow> registry \<Rightarrow> registry" where
  "registerToolFromQuery now lqlQuery originalQuery tools =
     (let toolName = generateToolName originalQuery (category lqlQuery) in
      case map_get tools toolName of
        Some existingTool \<Rightarrow>
          map_set toolName (existingTool\<lparr>lastUsed := Some now, usageCount := usageCount existingTool + 1\<rparr>) tools
      | None \<Rightarrow>
          (case createDynamicTool now toolName originalQuery lqlQuery of
             Some tool \<Rightarrow> map_set toolName tool tools
           | None \<Rightarrow> tools))"

subsection \<open>Running a tool\<close>

text \<open>The \<^verbatim>\<open>args\<close> of a call; \<open>None\<close> for the record is \<^verbatim>\<open>undefined\<close>.\<close>

record ToolArgs =
  a_severity :: "string option"
  a_cloudProvider :: "string option"
  a_region :: "string option"
  a_startTime :: "string option"
  a_endTime :: "string option"
  a_query :: "string option"

datatype time_spec = TimeText string | TimeInstant int

record QueryRequest =
  q_query :: string
  q_startTime :: "time_spec option"
  q_endTime :: "time_spec option"

text \<open>What the generator of a tool returns: the text of the success, or the error.\<close>

datatype 'r tool_response = Success string string 'r | Failed failure

definition addWhereCondition :: "string \<Rightarrow> string \<Rightarrow> string" where
  "addWhereCondition query' condition =
     (if js_includes query' ''WHERE''
      then js_replace_re (Lit ''ORDER BY'') False (''  AND '' @ condition @ NL @ ''ORDER BY'') query'
      else js_replace_re (Lit ''ORDER BY'') False (''WHERE '' @ condition @ NL @ ''ORDER BY'') query')"

text \<open>The usage statistics that \<^verbatim>\<open>executeDynamicQuery\<close> updates before anything else.\<close>

definition update_usage :: "int \<Rightarrow> LQLQueryResult \<Rightarrow> string \<Rightarrow> registry \<Rightarrow> registry" where
  "update_usage now lqlQuery originalDescription tools =
     (let toolName = generateToolName originalDescription (category lqlQuery) in
      case map_get tools toolName of
        Some tool \<Rightarrow> map_set toolName (tool\<lparr>lastUsed := Some now, usageCount := usageCount tool + 1\<rparr>) tools
      | None \<Rightarrow> tools)"

definition choose_time :: "string option \<Rightarrow> int option \<Rightarrow> time_spec option" where
  "choose_time given fallback =
     (if truthy given then map_option TimeText given else map_option TimeInstant fallback)"

text \<open>
  \<open>exec\<close> is the query-execution collaborator (\<^verbatim>\<open>laceworkHandler.executeQuery\<close>): it
  returns its result or fails with a message.
\<close>

definition executeDynamicQuery ::
  "int \<Rightarrow> (QueryRequest \<Rightarrow> string + 'r) \<Rightarrow> LQLQueryResult \<Rightarrow> ToolArgs option \<Rightarrow> string \<Rightarrow> registry
     \<Rightarrow> 'r tool_response \<times> registry" where
  "executeDynamicQuery now exec lqlQuery args originalDescription tools =
     (let tools' = update_usage now lqlQuery originalDescription tools in
      case args of
        None \<Rightarrow> (Failed TypeError, tools')
      | Some a \<Rightarrow>
          (let finalQuery0 = query lqlQuery;
               finalQuery1 = (if truthy (a_severity a) \<and> \<not> js_includes finalQuery0 ''SEVERITY''
                              then addWhereCondition finalQuery0
                                     (''SEVERITY = '' @ SQ @ the (a_severity a) @ SQ)
                              else finalQuery0);
               finalQuery2 = (if truthy (a_region a) \<and> \<not> js_includes finalQuery1 ''AWS_REGION''
                              then addWhereCondition finalQuery1
                                     (''AWS_REGION = '' @ SQ @ the (a_region a) @ SQ)
                              else finalQuery1);
               request = \<lparr>q_query = finalQuery2,
                          q_startTime = choose_time (a_startTime a) (map_option start (timeRange lqlQuery)),
                          q_endTime = choose_time (a_endTime a) (map_option endT (timeRange lqlQuery))\<rparr>
           in case exec request of
                Inl msg \<Rightarrow> (Failed (ExecutionError msg), tools')
              | Inr result \<Rightarrow> (Success originalDescription finalQuery2 result, tools')))"

definition executeTool ::
  "int \<Rightarrow> (QueryRequest \<Rightarrow> string + 'r) \<Rightarrow> string \<Rightarrow> ToolArgs option \<Rightarrow> registry
     \<Rightarrow> 'r tool_response option \<times> registry" where
  "executeTool now exec name' args tools =
     (case map_get tools name' of
        Some tool \<Rightarrow>
          (let res = executeDynamicQuery now exec (gen_lqlQuery (generator tool)) args
                       (gen_naturalLanguage (generator tool)) tools
           in (Some (fst res), snd res))
      | None \<Rightarrow> (None, tools))"

subsection \<open>\<^verbatim>\<open>generateToolFromQuery\<close>\<close>

primrec ngroups :: "re \<Rightarrow> nat" where
  "ngroups (Lit l) = 0"
| "ngroups Dot = 0"
| "ngroups (OneOf cls) = 0"
| "ngroups WSpace = 0"
| "ngroups Digit = 0"
| "ngroups Bol = 0"
| "ngroups Eol = 0"
| "ngroups (Seq a b) = ngroups a + ngroups b"
| "ngroups (Alt a b) = ngroups a + ngroups b"
| "ngroups (Opt a) = ngroups a"
| "ngroups (Star a) = ngroups a"
| "ngroups (LazyStar a) = ngroups a"
| "ngroups (Plus a) = ngroups a"
| "ngroups (Grp i a) = Suc (ngroups a)"

definition hyphens :: re where
  "hyphens = Opt (OneOf ''-_'')"

text \<open>The naming conventions of \<^verbatim>\<open>inferNaturalLanguage\<close> with their templates, in order.\<close>

definition name_patterns :: "(re \<times> string) list" where
  "name_patterns =
     [(seqs [Lit ''get'', hyphens, Lit ''aws'', hyphens, Grp 1 (LazyStar Dot), hyphens,
             alts [Lit ''with'', Lit ''having''], hyphens, Grp 2 (Star Dot)],
       ''show me AWS $1 with $2''),
      (seqs [Lit ''list'', hyphens, Lit ''aws'', hyphens, Grp 1 (Star Dot)], ''list all AWS $1''),
      (seqs [Lit ''find'', hyphens, Lit ''aws'', hyphens, Grp 1 (Star Dot)], ''find AWS $1''),
      (seqs [Lit ''get'', hyphens, Lit ''aws'', hyphens, Grp 1 (Star Dot)], ''show me AWS $1''),
      (seqs [Lit ''get'', hyphens, Grp 1 (alts [Lit ''high'', Lit ''critical'']), hyphens,
             Grp 2 (LazyStar Dot), hyphens,
             Grp 3 (alts [Lit ''vulnerabilit'', Lit ''risk'', Lit ''threat''])],
       ''show me $1 $2 $3''),
      (seqs [Lit ''list'', hyphens, Grp 1 (LazyStar Dot), hyphens,
             Grp 2 (alts [Lit ''fail'', Lit ''violation'']), Opt (Lit ''s'')],
       ''list all $1 $2''),
      (seqs [Lit ''find'', hyphens, Grp 1 (LazyStar Dot), hyphens,
             Grp 2 (alts [Lit ''compliance'', Lit ''security''])],
       ''find $1 $2 issues''),
      (seqs [Lit ''get'', hyphens, Lit ''container'', hyphens, Grp 1 (Star Dot)], ''show me container $1''),
      (seqs [Lit ''list'', hyphens, Lit ''k8s'', hyphens, Grp 1 (Star Dot)], ''list kubernetes $1''),
      (seqs [Lit ''get'', hyphens, Grp 1 (Star Dot), hyphens, Lit ''with'', hyphens, Grp 2 (Star Dot)],
       ''show me $1 with $2''),
      (seqs [Lit ''list'', hyphens, Grp 1 (Star Dot)], ''list all $1''),
      (seqs [Lit ''find'', hyphens, Grp 1 (Star Dot)], ''find $1'')]"

text \<open>\<^verbatim>\<open>s.replace(/[-_]/g, ' ')\<close>.\<close>

definition unhyphen :: "string \<Rightarrow> string" where
  "unhyphen s = map (\<lambda>c. if c \<in> set ''-_'' then CHR '' '' else c) s"

text \<open>
  The loop \<^verbatim>\<open>for (let i = 1; i < match.length; i++)\<close> over the groups of a match.  A
  group that took no part in the match is \<^verbatim>\<open>undefined\<close>, and calling \<^verbatim>\<open>replace\<close> on it
  raises.
\<close>

fun fill_template :: "(nat \<times> string) list \<Rightarrow> nat list \<Rightarrow> string \<Rightarrow> failure + string" where
  "fill_template groups [] result = Inr result"
| "fill_template groups (i # is) result =
     (case map_of groups i of
        None \<Rightarrow> Inl TypeError
      | Some g \<Rightarrow>
          fill_template groups is
            (js_replace_str (CHR ''$'' # string_of_nat i) (js_trim (unhyphen g)) result))"

text \<open>
  The first naming convention that matches, with the match it gives (a pattern that
  matches ends the search).
\<close>

fun first_name_match :: "(re \<times> string) list \<Rightarrow> string \<Rightarrow> ((re \<times> string) \<times> rmatch_result) option" where
  "first_name_match [] toolName = None"
| "first_name_match (p # ps) toolName =
     (case re_exec (fst p) False toolName of
        Some m \<Rightarrow> Some (p, m)
      | None \<Rightarrow> first_name_match ps toolName)"

definition inferNaturalLanguage :: "string \<Rightarrow> ToolArgs option \<Rightarrow> failure + string" where
  "inferNaturalLanguage toolName args =
     (case first_name_match name_patterns toolName of
        Some pm \<Rightarrow> fill_template (m_groups (snd pm)) [1 ..< Suc (ngroups (fst (fst pm)))] (snd (fst pm))
      | None \<Rightarrow>
          (if (case args of Some a \<Rightarrow> truthy (a_query a) | None \<Rightarrow> False)
           then Inr (the (a_query (the args)))
           else Inr (js_trim
                  (js_replace_re
                     (seqs [Bol, Grp 1 (alts [Lit ''get'', Lit ''list'', Lit ''find'', Lit ''show'']), Plus WSpace])
                     False ''show me '' (unhyphen toolName)))))"

text \<open>
  \<^verbatim>\<open>generateToolFromQuery\<close>.  The clock is read by the translator (\<open>now\<close>) and again when
  the tool is created (\<open>now'\<close>).  An exception anywhere in the body is caught and makes
  the result \<^verbatim>\<open>false\<close>.  The result is \<open>None\<close> only where the text of the query is not
  modelled.
\<close>

definition generateToolFromQuery ::
  "int \<Rightarrow> int \<Rightarrow> string \<Rightarrow> ToolArgs option \<Rightarrow> registry \<Rightarrow> (bool \<times> registry) option" where
  "generateToolFromQuery now now' toolName args tools =
     (case inferNaturalLanguage toolName args of
        Inl e \<Rightarrow> Some (False, tools)
      | Inr naturalLanguage \<Rightarrow>
          (if naturalLanguage = [] then Some (False, tools)
           else case generateFromNaturalLanguage now naturalLanguage of
                  None \<Rightarrow> None
                | Some lqlQuery \<Rightarrow>
                    (case createDynamicTool now' toolName naturalLanguage lqlQuery of
                       Some tool \<Rightarrow> Some (True, map_set toolName tool tools)
                     | None \<Rightarrow> Some (False, tools))))"

subsection \<open>\<^verbatim>\<open>pruneUnusedTools\<close>\<close>

text \<open>
  One round of the \<^verbatim>\<open>for (const [name, tool] of this.tools.entries())\<close> loop.  Deleting the
  entry being visited does not disturb the iteration of a \<^verbatim>\<open>Map\<close>, so the loop visits the
  entries the map had on entry, in order.
\<close>

definition prune_visit :: "int \<Rightarrow> int \<Rightarrow> string \<times> DynamicTool \<Rightarrow> registry \<times> int \<Rightarrow> registry \<times> int" where
  "prune_visit now maxAge e st =
     (let tool = snd e;
          lastUsed' = (case lastUsed tool of Some l \<Rightarrow> l | None \<Rightarrow> created tool)
      in if now - lastUsed' > maxAge \<and> usageCount tool = 0
         then (map_delete (fst e) (fst st), snd st + 1)
         else st)"

definition pruneUnusedTools :: "int \<Rightarrow> int \<Rightarrow> registry \<Rightarrow> registry \<times> int" where
  "pruneUnusedTools now maxAge tools = fold (prune_visit now maxAge) tools (tools, 0)"

subsection \<open>\<^verbatim>\<open>exportTools\<close> and \<^verbatim>\<open>importTools\<close>\<close>

definition exportTools :: "registry \<Rightarrow> DynamicTool list" where
  "exportTools tools = map snd tools"

definition importTools :: "DynamicTool list \<Rightarrow> registry \<Rightarrow> registry" where
  "importTools ts tools = fold (\<lambda>tool m. map_set (name tool) tool m) ts tools"

text \<open>
  Every insertion of the source stores a tool under its own \<^verbatim>\<open>name\<close>
  (\<^verbatim>\<open>this.tools.set(toolName, tool)\<close> with \<^verbatim>\<open>tool.name = toolName\<close>, and
  \<^verbatim>\<open>this.tools.set(tool.name, tool)\<close>), and the keys of a \<^verbatim>\<open>Map\<close> are unique.
\<close>

definition registry_ok :: "registry \<Rightarrow> bool" where
  "registry_ok tools = (distinct (map fst tools) \<and> list_all (\<lambda>e. name (snd e) = fst e) tools)"

text \<open>The tools that \<^verbatim>\<open>pruneUnusedTools\<close> is to remove.\<close>

definition prunable :: "int \<Rightarrow> int \<Rightarrow> DynamicTool \<Rightarrow> bool" where
  "prunable now maxAge tool =
     (usageCount tool = 0 \<and>
      now - (case lastUsed tool of Some l \<Rightarrow> l | None \<Rightarrow> created tool) > maxAge)"

text \<open>
  The data sources the translator can select, and the properties \<^verbatim>\<open>extractFilters\<close> can
  assign.
\<close>

definition known_sources :: "string list" where
  "known_sources = [''CloudTrailRawEvents'', ''ComplianceEvaluationDetails'', ''ContainerVulnDetails'',
     ''KubernetesActivity'', ''NetworkActivity'', ''UserActivity'', ''VulnDetails'']"

definition filter_keys :: "string list" where
  "filter_keys = [''risk_score'', ''severity'', ''cloud_provider'', ''resource_type'', ''status'',
     ''encrypted'', ''public_access'']"





section \<open>Example values\<close>

definition example_query :: LQLQueryResult where
  "example_query =
     \<lparr>query = ''SELECT *'' @ NL @ ''FROM ContainerVulnDetails'' @ NL @ ''ORDER BY SEVERITY DESC'' @ NL @ ''LIMIT 100'',
      category = ''general'',
      suggestedName = ''lacework-containers'',
      parameters = [(''resource_type'', PStr ''container'')],
      timeRange = Some \<lparr>start = 0, endT = 86400000\<rparr>,
      confidence = 4 / 5\<rparr>"

definition example_tool :: "string \<Rightarrow> int \<Rightarrow> int option \<Rightarrow> int \<Rightarrow> DynamicTool" where
  "example_tool n c l u =
     \<lparr>name = n, description = ''Dynamically generated tool: containers'',
      inputSchema = generateInputSchema example_query,
      generator = \<lparr>gen_lqlQuery = example_query, gen_naturalLanguage = ''containers''\<rparr>,
      queryPattern = Some example_query, created = c, lastUsed = l, usageCount = u\<rparr>"

definition example_registry :: registry where
  "example_registry =
     [(''get-old'', example_tool ''get-old'' 0 None 0),
      (''get-used'', example_tool ''get-used'' 0 (Some 5) 3),
      (''get-new'', example_tool ''get-new'' 90 None 0)]"

text \<open>An example collation: the order of the code units.\<close>

fun codeunit_le :: "string \<Rightarrow> string \<Rightarrow> bool" where
  "codeunit_le [] b = True"
| "codeunit_le (x # a) [] = False"
| "codeunit_le (x # a) (y # b) =
     ((of_char x :: nat) < of_char y \<or> (x = y \<and> codeunit_le a b))"






section \<open>Properties of the container operations\<close>

lemma map_of_map_set: "map_of (map_set k v m) = (map_of m)(k \<mapsto> v)"
  by (induction m) auto

lemma keys_map_set:
  "map fst (map_set k v m) = (if k \<in> fst ` set m then map fst m else map fst m @ [k])"
  by (induction m) auto

lemma map_set_fresh: "k \<notin> fst ` set m \<Longrightarrow> map_set k v m = m @ [(k, v)]"
  by (induction m) auto

lemma map_set_same: "distinct (map fst m) \<Longrightarrow> (k, v) \<in> set m \<Longrightarrow> map_set k v m = m"
proof (induction m)
  case Nil
  then show ?case by simp
next
  case (Cons p ps)
  then show ?case by (cases p) (auto simp: rev_image_eqI)
qed

subsection \<open>Pruning\<close>

lemma prune_visit_eq:
  "prune_visit now maxAge e st =
     (if prunable now maxAge (snd e) then (map_delete (fst e) (fst st), snd st + 1) else st)"
  by (auto simp: prune_visit_def prunable_def Let_def)

lemma fold_prune_visit:
  "fold (prune_visit now maxAge) es (m, c) =
     (filter (\<lambda>p. fst p \<notin> fst ` {e \<in> set es. prunable now maxAge (snd e)}) m,
      c + int (length (filter (\<lambda>e. prunable now maxAge (snd e)) es)))"
proof (induction es arbitrary: m c)
  case Nil
  then show ?case by simp
next
  case (Cons e es)
  let ?P = "\<lambda>x. prunable now maxAge (snd x)"
  show ?case
  proof (cases "?P e")
    case True
    have step: "prune_visit now maxAge e (m, c) = (map_delete (fst e) m, c + 1)"
      using True by (simp add: prune_visit_eq)
    have flt: "filter (\<lambda>p. fst p \<notin> fst ` {x \<in> set es. ?P x}) (map_delete (fst e) m)
        = filter (\<lambda>p. fst p \<notin> fst ` {x \<in> set (e # es). ?P x}) m"
      using True unfolding map_delete_def filter_filter
      by (intro filter_cong refl) auto
    have cnt: "length (filter ?P (e # es)) = Suc (length (filter ?P es))"
      using True by simp
    have "fold (prune_visit now maxAge) (e # es) (m, c)
        = fold (prune_visit now maxAge) es (map_delete (fst e) m, c + 1)"
      by (simp add: step)
    also have "\<dots> = (filter (\<lambda>p. fst p \<notin> fst ` {x \<in> set es. ?P x}) (map_delete (fst e) m),
                      c + 1 + int (length (filter ?P es)))"
      by (rule Cons.IH)
    finally show ?thesis
      unfolding flt cnt by simp
  next
    case False
    have step: "prune_visit now maxAge e (m, c) = (m, c)"
      using False by (simp add: prune_visit_eq)
    have sets: "{x \<in> set (e # es). ?P x} = {x \<in> set es. ?P x}"
      using False by auto
    have cnt: "length (filter ?P (e # es)) = length (filter ?P es)"
      using False by simp
    have "fold (prune_visit now maxAge) (e # es) (m, c) = fold (prune_visit now maxAge) es (m, c)"
      by (simp add: step)
    also have "\<dots> = (filter (\<lambda>p. fst p \<notin> fst ` {x \<in> set es. ?P x}) m,
                      c + int (length (filter ?P es)))"
      by (rule Cons.IH)
    finally show ?thesis
      unfolding sets cnt .
  qed
qed

lemma pruned_key_iff:
  assumes "distinct (map fst tools)" and "p \<in> set tools"
  shows "fst p \<in> fst ` {e \<in> set tools. P (snd e)} \<longleftrightarrow> P (snd p)"
proof
  assume "fst p \<in> fst ` {e \<in> set tools. P (snd e)}"
  then obtain e where e: "e \<in> set tools" "P (snd e)" "fst e = fst p" by auto
  from assms e have "e = p"
    by (metis eq_key_imp_eq_value prod.collapse)
  with e show "P (snd p)" by simp
next
  assume "P (snd p)"
  with assms show "fst p \<in> fst ` {e \<in> set tools. P (snd e)}" by auto
qed

lemma pruneUnusedTools_filter:
  assumes "distinct (map fst tools)"
  shows "pruneUnusedTools now maxAge tools =
     (filter (\<lambda>e. \<not> prunable now maxAge (snd e)) tools,
      int (length (filter (\<lambda>e. prunable now maxAge (snd e)) tools)))"
proof -
  have "filter (\<lambda>p. fst p \<notin> fst ` {e \<in> set tools. prunable now maxAge (snd e)}) tools
      = filter (\<lambda>e. \<not> prunable now maxAge (snd e)) tools"
    by (intro filter_cong refl) (simp add: pruned_key_iff [OF assms])
  then show ?thesis
    by (simp add: pruneUnusedTools_def fold_prune_visit)
qed

text \<open>
  C4.  \<^verbatim>\<open>pruneUnusedTools(maxAge)\<close> removes exactly the tools whose \<^verbatim>\<open>usageCount\<close> is 0 and
  whose last activity (\<^verbatim>\<open>lastUsed\<close> if present, otherwise \<^verbatim>\<open>created\<close>) lies more than
  \<^verbatim>\<open>maxAge\<close> milliseconds earlier than the call; it returns the number of tools removed; a tool
  with \<^verbatim>\<open>usageCount > 0\<close> stays whatever its age.
\<close>

theorem C4_prune_removes_exactly_unused_old:
  assumes "distinct (map fst tools)"
  shows "set (fst (pruneUnusedTools now maxAge tools)) =
           {e \<in> set tools. \<not> (usageCount (snd e) = 0 \<and>
              now - (case lastUsed (snd e) of Some l \<Rightarrow> l | None \<Rightarrow> created (snd e)) > maxAge)}
       \<and> fst (pruneUnusedTools now maxAge tools) =
           filter (\<lambda>e. \<not> prunable now maxAge (snd e)) tools
       \<and> snd (pruneUnusedTools now maxAge tools) =
           int (length tools) - int (length (fst (pruneUnusedTools now maxAge tools)))
       \<and> (\<forall>e \<in> set tools. usageCount (snd e) > 0 \<longrightarrow> e \<in> set (fst (pruneUnusedTools now maxAge tools)))"
proof -
  let ?keep = "filter (\<lambda>e. \<not> prunable now maxAge (snd e)) tools"
  let ?drop = "filter (\<lambda>e. prunable now maxAge (snd e)) tools"
  have eq: "pruneUnusedTools now maxAge tools = (?keep, int (length ?drop))"
    by (rule pruneUnusedTools_filter [OF assms])
  have len: "length tools = length ?keep + length ?drop"
    using sum_length_filter_compl [of "\<lambda>e. \<not> prunable now maxAge (snd e)" tools] by simp
  have "set ?keep = {e \<in> set tools. \<not> (usageCount (snd e) = 0 \<and>
              now - (case lastUsed (snd e) of Some l \<Rightarrow> l | None \<Rightarrow> created (snd e)) > maxAge)}"
    by (auto simp: prunable_def)
  moreover have "int (length ?drop) = int (length tools) - int (length ?keep)"
    using len by simp
  moreover have "\<forall>e \<in> set tools. usageCount (snd e) > 0 \<longrightarrow> e \<in> set ?keep"
    by (auto simp: prunable_def)
  ultimately show ?thesis
    by (simp add: eq)
qed

theorem C4_prune_witness:
  "distinct (map fst example_registry)
   \<and> map fst (fst (pruneUnusedTools 100 50 example_registry)) = [''get-used'', ''get-new'']
   \<and> snd (pruneUnusedTools 100 50 example_registry) = 1"
proof -
  have d: "distinct (map fst example_registry)"
    by (simp add: example_registry_def)
  have p: "filter (\<lambda>e. \<not> prunable 100 50 (snd e)) example_registry = tl example_registry"
    by (simp add: example_registry_def example_tool_def prunable_def)
  from C4_prune_removes_exactly_unused_old [OF d, of 100 50]
  have "fst (pruneUnusedTools 100 50 example_registry) = tl example_registry"
    and "snd (pruneUnusedTools 100 50 example_registry) =
           int (length example_registry) - int (length (fst (pruneUnusedTools 100 50 example_registry)))"
    by (simp_all add: p)
  then show ?thesis
    using d by (simp add: example_registry_def)
qed

subsection \<open>Export and import\<close>

lemma import_append:
  assumes "distinct (map fst es)" and "fst ` set es \<inter> fst ` set acc = {}"
    and "list_all (\<lambda>e. name (snd e) = fst e) es"
  shows "fold (\<lambda>tool m. map_set (name tool) tool m) (map snd es) acc = acc @ es"
  using assms
proof (induction es arbitrary: acc)
  case Nil
  then show ?case by simp
next
  case (Cons e es)
  obtain k t where e: "e = (k, t)" by (cases e)
  from Cons.prems e have nk: "name t = k" and fresh: "k \<notin> fst ` set acc" by auto
  have step: "map_set (name t) t acc = acc @ [(k, t)]"
    using fresh by (simp add: nk map_set_fresh)
  have "fold (\<lambda>tool m. map_set (name tool) tool m) (map snd es) (acc @ [(k, t)]) = (acc @ [(k, t)]) @ es"
    using Cons.prems e by (intro Cons.IH) auto
  then show ?case
    by (simp add: e step)
qed

lemma import_other_key:
  "k \<notin> name ` set ts \<Longrightarrow> map_of (importTools ts tools) k = map_of tools k"
  unfolding importTools_def
  by (induction ts arbitrary: tools) (auto simp: map_of_map_set)

lemma import_overwrites:
  "distinct (map name ts) \<Longrightarrow> t \<in> set ts \<Longrightarrow> map_of (importTools ts tools) (name t) = Some t"
proof (induction ts arbitrary: tools)
  case Nil
  then show ?case by simp
next
  case (Cons a ts)
  show ?case
  proof (cases "t = a")
    case True
    with Cons.prems have "name a \<notin> name ` set ts" by auto
    then have "map_of (importTools ts (map_set (name a) a tools)) (name a)
             = map_of (map_set (name a) a tools) (name a)"
      by (rule import_other_key)
    with True show ?thesis
      by (simp add: importTools_def map_of_map_set)
  next
    case False
    with Cons.prems have "t \<in> set ts" "distinct (map name ts)" by auto
    then have "map_of (importTools ts (map_set (name a) a tools)) (name t) = Some t"
      by (intro Cons.IH)
    then show ?thesis
      by (simp add: importTools_def)
  qed
qed

lemma registry_ok_names:
  assumes "registry_ok tools"
  shows "map name (exportTools tools) = map fst tools"
  using assms unfolding registry_ok_def exportTools_def
  by (induction tools) auto

text \<open>
  C5.  Importing the export of a registry into an empty registry gives the registry
  back, entry for entry (the same names, schemas and usage counters, in the same order).
  Importing it into any registry \<open>other\<close> stores every exported tool under its name,
  overwriting what \<open>other\<close> held there, and leaves the other names of \<open>other\<close> as they were.
\<close>

theorem C5_import_export_roundtrip:
  assumes "registry_ok tools"
  shows "importTools (exportTools tools) [] = tools
       \<and> (\<forall>e \<in> set tools. map_get (importTools (exportTools tools) other) (fst e) = Some (snd e))
       \<and> (\<forall>k. k \<notin> fst ` set tools \<longrightarrow>
              map_get (importTools (exportTools tools) other) k = map_get other k)"
proof -
  from assms have d: "distinct (map fst tools)" and n: "list_all (\<lambda>e. name (snd e) = fst e) tools"
    by (simp_all add: registry_ok_def)
  have names: "map name (exportTools tools) = map fst tools"
    by (rule registry_ok_names [OF assms])
  have 1: "importTools (exportTools tools) [] = tools"
    using import_append [OF d _ n, of "[]"] by (simp add: importTools_def exportTools_def)
  have 2: "map_get (importTools (exportTools tools) other) (fst e) = Some (snd e)" if "e \<in> set tools" for e
  proof -
    from that have "snd e \<in> set (exportTools tools)"
      by (auto simp: exportTools_def)
    moreover have "distinct (map name (exportTools tools))"
      by (simp add: names d)
    ultimately have "map_of (importTools (exportTools tools) other) (name (snd e)) = Some (snd e)"
      by (intro import_overwrites)
    moreover from n that have "name (snd e) = fst e"
      by (auto simp: list_all_iff)
    ultimately show ?thesis
      by (simp add: map_get_def)
  qed
  have 3: "map_get (importTools (exportTools tools) other) k = map_get other k" if "k \<notin> fst ` set tools" for k
  proof -
    have "name ` set (exportTools tools) = fst ` set tools"
      using names by (metis list.set_map)
    with that show ?thesis
      by (simp add: map_get_def import_other_key)
  qed
  from 1 2 3 show ?thesis by blast
qed

theorem C5_import_export_witness:
  "registry_ok example_registry
   \<and> importTools (exportTools example_registry) [] = example_registry
   \<and> map_get (importTools (exportTools example_registry) [(''get-used'', example_tool ''get-used'' 7 None 0)])
        ''get-used'' = Some (example_tool ''get-used'' 0 (Some 5) 3)"
proof -
  have ok: "registry_ok example_registry"
    by (simp add: registry_ok_def example_registry_def example_tool_def)
  have m: "(''get-used'', example_tool ''get-used'' 0 (Some 5) 3) \<in> set example_registry"
    by (simp add: example_registry_def)
  from C5_import_export_roundtrip [OF ok, of "[(''get-used'', example_tool ''get-used'' 7 None 0)]"] m
  have "importTools (exportTools example_registry) [] = example_registry"
    and "map_get (importTools (exportTools example_registry) [(''get-used'', example_tool ''get-used'' 7 None 0)])
           (fst (''get-used'', example_tool ''get-used'' 0 (Some 5) 3))
         = Some (snd (''get-used'', example_tool ''get-used'' 0 (Some 5) 3))"
    by blast+
  with ok show ?thesis by simp
qed

section \<open>Properties of the translator\<close>

subsection \<open>The confidence score\<close>

lemma double_literals:
  "to_double (5 / 10) = 1 / 2"
  "to_double (2 / 10) = 3602879701896397 / 18014398509481984"
  "to_double (1 / 10) = 3602879701896397 / 36028797018963968"
  "to_double 1 = 1"
  by code_simp+

lemma double_sums:
  "js_add (1 / 2) (3602879701896397 / 18014398509481984) = 6305039478318694 / 9007199254740992"
  "js_add (1 / 2) (3602879701896397 / 36028797018963968) = 5404319552844595 / 9007199254740992"
  "js_add (6305039478318694 / 9007199254740992) (3602879701896397 / 18014398509481984) = 8106479329266892 / 9007199254740992"
  "js_add (6305039478318694 / 9007199254740992) (3602879701896397 / 36028797018963968) = 7205759403792793 / 9007199254740992"
  "js_add (8106479329266892 / 9007199254740992) (3602879701896397 / 36028797018963968) = 9007199254740991 / 9007199254740992"
  by code_simp+

lemma nominal_doubles:
  "to_double (6 / 10) = 5404319552844595 / 9007199254740992"
  "to_double (7 / 10) = 6305039478318694 / 9007199254740992"
  "to_double (8 / 10) = 7205759403792794 / 9007199254740992"
  "to_double (9 / 10) = 8106479329266893 / 9007199254740992"
  by code_simp+

lemma calculateConfidence_value:
  "calculateConfidence dataSource pat filters =
     (if dataSource = None then
        (if pat = None then (if filters = [] then 1 / 2 else 5404319552844595 / 9007199254740992)
         else (if filters = [] then 6305039478318694 / 9007199254740992 else 7205759403792793 / 9007199254740992))
      else
        (if pat = None then (if filters = [] then 6305039478318694 / 9007199254740992 else 7205759403792793 / 9007199254740992)
         else (if filters = [] then 8106479329266892 / 9007199254740992 else 9007199254740991 / 9007199254740992)))"
  unfolding calculateConfidence_def Let_def double_literals
  by (simp only: double_sums if_True if_False length_greater_0_conv split: if_splits) simp


lemma confidence_bounds:
  "1 / 2 \<le> calculateConfidence dataSource pat filters"
  "calculateConfidence dataSource pat filters < 1"
  by (simp_all add: calculateConfidence_value)

lemma infer_known: "inferDataSourceFromQuery q \<in> set known_sources"
  by (simp add: inferDataSourceFromQuery_def known_sources_def Let_def)

lemma identify_known:
  assumes "identifyDataSource q = Some d"
  shows "lqlSource d \<in> set known_sources \<and> lqlSource d \<noteq> []"
proof -
  from assms have "d \<in> set (map snd dataSources)"
    unfolding identifyDataSource_def by (auto simp: find_Some_iff)
  then show ?thesis
    by (auto simp: dataSources_def known_sources_def)
qed

lemma keys_map_set_eq: "fst ` set (map_set k v m) = insert k (fst ` set m)"
  by (induction m) auto

lemma keys_fold_assign:
  "fst ` set (fold assign_rule rules acc) \<subseteq> fst ` set acc \<union> (fst \<circ> snd) ` set rules"
proof (induction rules arbitrary: acc)
  case Nil
  then show ?case by simp
next
  case (Cons r rs)
  have "fst ` set (assign_rule r acc) \<subseteq> insert (fst (snd r)) (fst ` set acc)"
    by (auto simp: assign_rule_def keys_map_set_eq)
  with Cons.IH [of "assign_rule r acc"] show ?case
    by auto
qed

lemma extractFilters_keys: "kv \<in> set (extractFilters q) \<Longrightarrow> fst kv \<in> set filter_keys"
proof -
  assume "kv \<in> set (extractFilters q)"
  then have "fst kv \<in> fst ` set (fold assign_rule (filter_rules q) [])"
    by (auto simp: extractFilters_def)
  with keys_fold_assign [of "filter_rules q" "[]"]
  have "fst kv \<in> (fst \<circ> snd) ` set (filter_rules q)" by auto
  then show ?thesis
    by (auto simp: filter_rules_def filter_keys_def)
qed

lemma mapFieldName_known:
  "list_all (\<lambda>s. list_all (\<lambda>k. case mapFieldName k s of Field f \<Rightarrow> True | _ \<Rightarrow> False) filter_keys) known_sources"
  by code_simp


lemma those_map_Some:
  "(\<And>x. x \<in> set xs \<Longrightarrow> \<exists>y. f x = Some y) \<Longrightarrow> \<exists>ys. those (map f xs) = Some ys"
proof (induction xs)
  case Nil
  then show ?case by simp
next
  case (Cons x xs)
  then obtain y where "f x = Some y" by auto
  moreover from Cons obtain ys where "those (map f xs) = Some ys" by auto
  ultimately show ?case by simp
qed

lemma filter_condition_known:
  assumes "source \<in> set known_sources" and "key \<in> set filter_keys"
  shows "\<exists>c. filter_condition source key value = Some c"
proof -
  from mapFieldName_known assms
  have "case mapFieldName key source of Field f \<Rightarrow> True | _ \<Rightarrow> False"
    by (auto simp: list_all_iff)
  then show ?thesis
    by (auto simp: filter_condition_def split: resolved.splits)
qed

lemma chosen_source_known:
  "(case identifyDataSource q of
      Some d \<Rightarrow> if lqlSource d \<noteq> [] then lqlSource d else inferDataSourceFromQuery nq
    | None \<Rightarrow> inferDataSourceFromQuery nq) \<in> set known_sources"
  using identify_known [of q] infer_known [of nq]
  by (auto split: option.splits)

lemma buildLQLQuery_total:
  "\<exists>q. buildLQLQuery (identifyDataSource lq) pat (extractFilters lq) nq = Some q \<and> q \<noteq> []"
proof -
  let ?source = "case identifyDataSource lq of
      Some d \<Rightarrow> if lqlSource d \<noteq> [] then lqlSource d else inferDataSourceFromQuery nq
    | None \<Rightarrow> inferDataSourceFromQuery nq"
  have "\<exists>conds. those (map (\<lambda>kv. filter_condition ?source (fst kv) (snd kv)) (extractFilters lq)) = Some conds"
    by (intro those_map_Some filter_condition_known chosen_source_known extractFilters_keys)
  then obtain conds where
    "those (map (\<lambda>kv. filter_condition ?source (fst kv) (snd kv)) (extractFilters lq)) = Some conds" ..
  then show ?thesis
    by (simp add: buildLQLQuery_def Let_def NL_def)
qed

lemma time_ranges_nonneg: "r \<in> set time_ranges \<Longrightarrow> 0 \<le> snd r"
  by (auto simp: time_ranges_def)

lemma extractTimeRange_ordered:
  "start (extractTimeRange now q) \<le> endT (extractTimeRange now q) \<and> endT (extractTimeRange now q) = now"
proof (cases "find (\<lambda>r. re_test (fst r) True q) time_ranges")
  case None
  then show ?thesis by (simp add: extractTimeRange_def)
next
  case (Some r)
  then have "r \<in> set time_ranges" by (auto simp: find_Some_iff)
  then have "0 \<le> snd r" by (rule time_ranges_nonneg)
  with Some show ?thesis by (simp add: extractTimeRange_def)
qed

text \<open>
  C1.  For every input text (and every reading of the clock) \<^verbatim>\<open>generateFromNaturalLanguage\<close>
  returns a result; its confidence lies between 0 and 1, its query is not empty, and its
  time range ends at the time of the call and starts no later: it starts as many hours
  earlier as the first matching phrase of the ordered list says, 24 when none matches.
\<close>

theorem C1_translate_total_and_well_formed:
  "\<exists>r. generateFromNaturalLanguage now nq = Some r
       \<and> 0 \<le> confidence r \<and> confidence r \<le> 1
       \<and> query r \<noteq> []
       \<and> timeRange r = Some (extractTimeRange now (js_toLowerCase nq))
       \<and> start (extractTimeRange now (js_toLowerCase nq)) \<le> endT (extractTimeRange now (js_toLowerCase nq))
       \<and> endT (extractTimeRange now (js_toLowerCase nq)) = now
       \<and> start (extractTimeRange now (js_toLowerCase nq)) =
           now - (case find (\<lambda>r. re_test (fst r) True (js_toLowerCase nq)) time_ranges of
                    Some r \<Rightarrow> snd r | None \<Rightarrow> 24) * 60 * 60 * 1000"
proof -
  obtain q where q: "buildLQLQuery (identifyDataSource (js_toLowerCase nq)) (matchQueryPattern nq)
                       (extractFilters (js_toLowerCase nq)) nq = Some q" "q \<noteq> []"
    using buildLQLQuery_total by blast
  have c: "0 \<le> calculateConfidence d p f" "calculateConfidence d p f \<le> 1" for d p f
    using confidence_bounds [of d p f] by simp_all
  have t: "start (extractTimeRange now (js_toLowerCase nq)) =
           now - (case find (\<lambda>r. re_test (fst r) True (js_toLowerCase nq)) time_ranges of
                    Some r \<Rightarrow> snd r | None \<Rightarrow> 24) * 60 * 60 * 1000"
    by (simp add: extractTimeRange_def split: option.splits)
  show ?thesis
    using q c t extractTimeRange_ordered [of now "js_toLowerCase nq"]
    by (simp add: generateFromNaturalLanguage_def Let_def)
qed


text \<open>
  C8.  For the text "find critical vulnerabilities in containers" the translator selects
  the source \<^verbatim>\<open>ContainerVulnDetails\<close>, the query reads from it, and the parameter
  \<^verbatim>\<open>severity\<close> of the result is "critical".
\<close>

theorem C8_critical_container_scenario:
  "map_option lqlSource (identifyDataSource (js_toLowerCase ''find critical vulnerabilities in containers''))
     = Some ''ContainerVulnDetails''
   \<and> map_option (\<lambda>r. (js_startsWith (query r) (''SELECT *'' @ NL @ ''FROM ContainerVulnDetails'' @ NL),
                       map_of (parameters r) ''severity''))
        (generateFromNaturalLanguage now ''find critical vulnerabilities in containers'')
     = Some (True, Some (PStr ''critical''))"
  by code_simp

text \<open>
  C10, as stated, fails: for the text below a data source is identified, a pattern matches
  and filters are extracted, and the confidence is \<open>1 - 2\<^sup>-\<^sup>5\<^sup>3\<close> (printed 0.9999999999999999),
  which is neither 1.0 nor another of the six values of the claim.
\<close>

theorem C10_all_signals_below_one:
  "identifyDataSource (js_toLowerCase ''show me AWS EC2 instances with high risk scores'') \<noteq> None
   \<and> matchQueryPattern ''show me AWS EC2 instances with high risk scores'' \<noteq> None
   \<and> extractFilters (js_toLowerCase ''show me AWS EC2 instances with high risk scores'') \<noteq> []
   \<and> map_option confidence (generateFromNaturalLanguage 0 ''show me AWS EC2 instances with high risk scores'')
        = Some (1 - 1 / 2 ^ 53)
   \<and> (1 - 1 / 2 ^ 53 :: rat) \<notin> set (map to_double [5 / 10, 6 / 10, 7 / 10, 8 / 10, 9 / 10, 1])"
  by code_simp

text \<open>
  C10, amended.  For every input text the confidence is the value \<^verbatim>\<open>calculateConfidence\<close>
  computes from the three signals.  That value is at least 0.5 and below 1; it is one of
  six numbers: the doubles 0.5, 0.6 and 0.7, and the doubles one unit in the last place
  (\<open>2\<^sup>-\<^sup>5\<^sup>3\<close>) below 0.8, 0.9 and 1.0; the largest, \<open>1 - 2\<^sup>-\<^sup>5\<^sup>3\<close>, is taken exactly when all
  three signals are present, so the cap at 1.0 never applies.
\<close>

theorem C10_confidence_values:
  "(\<exists>r. generateFromNaturalLanguage now nq = Some r
        \<and> confidence r = calculateConfidence (identifyDataSource (js_toLowerCase nq)) (matchQueryPattern nq)
                            (extractFilters (js_toLowerCase nq)))
   \<and> 1 / 2 \<le> calculateConfidence d p f
   \<and> calculateConfidence d p f < 1
   \<and> calculateConfidence d p f \<in>
        {to_double (5 / 10), to_double (6 / 10), to_double (7 / 10),
         to_double (8 / 10) - 1 / 2 ^ 53, to_double (9 / 10) - 1 / 2 ^ 53, to_double 1 - 1 / 2 ^ 53}
   \<and> (calculateConfidence d p f = 1 - 1 / 2 ^ 53 \<longleftrightarrow> d \<noteq> None \<and> p \<noteq> None \<and> f \<noteq> [])"
proof -
  obtain q where "buildLQLQuery (identifyDataSource (js_toLowerCase nq)) (matchQueryPattern nq)
                    (extractFilters (js_toLowerCase nq)) nq = Some q"
    using buildLQLQuery_total by blast
  then have 1: "\<exists>r. generateFromNaturalLanguage now nq = Some r
        \<and> confidence r = calculateConfidence (identifyDataSource (js_toLowerCase nq)) (matchQueryPattern nq)
                            (extractFilters (js_toLowerCase nq))"
    by (simp add: generateFromNaturalLanguage_def Let_def)
  have 2: "calculateConfidence d p f \<in>
        {to_double (5 / 10), to_double (6 / 10), to_double (7 / 10),
         to_double (8 / 10) - 1 / 2 ^ 53, to_double (9 / 10) - 1 / 2 ^ 53, to_double 1 - 1 / 2 ^ 53}"
    unfolding double_literals nominal_doubles
    by (simp add: calculateConfidence_value)
  have 3: "calculateConfidence d p f = 1 - 1 / 2 ^ 53 \<longleftrightarrow> d \<noteq> None \<and> p \<noteq> None \<and> f \<noteq> []"
    by (simp add: calculateConfidence_value)
  from 1 2 3 confidence_bounds [of d p f] show ?thesis
    by blast
qed

section \<open>Properties of the registry\<close>

lemma map_set_last: "k \<notin> fst ` set m \<Longrightarrow> map_set k v' (m @ [(k, v)]) = m @ [(k, v')]"
  by (induction m) auto

lemma map_set_twice: "map_set k v' (map_set k v m) = map_set k v' m"
  by (induction m) auto

lemma map_get_None_fresh: "map_get m k = None \<Longrightarrow> k \<notin> fst ` set m"
  by (simp add: map_get_def map_of_eq_None_iff)

lemma map_get_append_fresh: "map_get m k = None \<Longrightarrow> map_get (m @ [(k, v)]) k = Some v"
  unfolding map_get_def by (induction m) (auto split: if_splits)

lemma map_get_map_set: "map_get (map_set k v m) k = Some v"
  by (simp add: map_get_def map_of_map_set)

text \<open>
  C2, as stated, fails: after two registrations of the same translation and text the
  registry holds one tool, and its \<^verbatim>\<open>usageCount\<close> is 1, not 2 (the first registration
  creates the tool with \<^verbatim>\<open>usageCount: 0\<close>, the second counts one re-use).
\<close>

theorem C2_second_registration_counts_one:
  "map (\<lambda>e. (fst e, usageCount (snd e)))
     (registerToolFromQuery 2000 example_query ''find critical vulnerabilities in containers''
        (registerToolFromQuery 1000 example_query ''find critical vulnerabilities in containers'' []))
   = [(''get-critical-vulnerabilities-containers'', 1)]
   \<and> (1 :: int) \<noteq> 2"
  unfolding example_query_def by code_simp

text \<open>
  C2, amended.  The name is a function of the text and the category.  Two registrations
  with the same translation and text, in a registry that does not hold that name, add
  exactly one tool, at the end, created at the first call, with \<^verbatim>\<open>usageCount\<close> 1 and
  \<^verbatim>\<open>lastUsed\<close> the time of the second call.  In a registry that holds the name already they
  add nothing and raise the \<^verbatim>\<open>usageCount\<close> of that tool by 2.
\<close>

theorem C2_register_twice:
  "(map_get tools (generateToolName originalQuery (category lqlQuery)) = None \<longrightarrow>
      registerToolFromQuery now2 lqlQuery originalQuery (registerToolFromQuery now1 lqlQuery originalQuery tools)
      = tools @ [(generateToolName originalQuery (category lqlQuery),
                  \<lparr>name = generateToolName originalQuery (category lqlQuery),
                   description = ''Dynamically generated tool: '' @ originalQuery,
                   inputSchema = generateInputSchema lqlQuery,
                   generator = \<lparr>gen_lqlQuery = lqlQuery, gen_naturalLanguage = originalQuery\<rparr>,
                   queryPattern = Some lqlQuery,
                   created = now1, lastUsed = Some now2, usageCount = 1\<rparr>)])
   \<and> (\<forall>t. map_get tools (generateToolName originalQuery (category lqlQuery)) = Some t \<longrightarrow>
          map_get (registerToolFromQuery now2 lqlQuery originalQuery
                     (registerToolFromQuery now1 lqlQuery originalQuery tools))
                  (generateToolName originalQuery (category lqlQuery))
            = Some (t\<lparr>lastUsed := Some now2, usageCount := usageCount t + 2\<rparr>)
          \<and> map fst (registerToolFromQuery now2 lqlQuery originalQuery
                        (registerToolFromQuery now1 lqlQuery originalQuery tools)) = map fst tools)"
proof (intro conjI impI allI)
  let ?n = "generateToolName originalQuery (category lqlQuery)"
  assume none: "map_get tools ?n = None"
  then have fresh: "?n \<notin> fst ` set tools" by (rule map_get_None_fresh)
  show "registerToolFromQuery now2 lqlQuery originalQuery (registerToolFromQuery now1 lqlQuery originalQuery tools)
      = tools @ [(?n, \<lparr>name = ?n, description = ''Dynamically generated tool: '' @ originalQuery,
                   inputSchema = generateInputSchema lqlQuery,
                   generator = \<lparr>gen_lqlQuery = lqlQuery, gen_naturalLanguage = originalQuery\<rparr>,
                   queryPattern = Some lqlQuery,
                   created = now1, lastUsed = Some now2, usageCount = 1\<rparr>)]"
    using none fresh
    by (simp add: registerToolFromQuery_def createDynamicTool_def Let_def map_set_fresh
                  map_get_append_fresh map_set_last)
next
  fix t
  let ?n = "generateToolName originalQuery (category lqlQuery)"
  assume some: "map_get tools ?n = Some t"
  then have mem: "?n \<in> fst ` set tools"
    by (metis map_get_None_fresh map_get_def map_of_eq_None_iff option.distinct(1))
  show "map_get (registerToolFromQuery now2 lqlQuery originalQuery
                     (registerToolFromQuery now1 lqlQuery originalQuery tools)) ?n
            = Some (t\<lparr>lastUsed := Some now2, usageCount := usageCount t + 2\<rparr>)"
    using some
    by (simp add: registerToolFromQuery_def Let_def map_get_map_set map_set_twice)
  show "map fst (registerToolFromQuery now2 lqlQuery originalQuery
                        (registerToolFromQuery now1 lqlQuery originalQuery tools)) = map fst tools"
    using some mem
    by (simp add: registerToolFromQuery_def Let_def map_get_map_set map_set_twice keys_map_set)
qed

theorem C2_register_twice_witness:
  "map_get [] (generateToolName ''containers'' (category example_query)) = None
   \<and> map (\<lambda>e. (fst e, usageCount (snd e), lastUsed (snd e)))
        (registerToolFromQuery 2000 example_query ''containers''
           (registerToolFromQuery 1000 example_query ''containers'' []))
     = [(generateToolName ''containers'' (category example_query), 1, Some 2000)]"
proof -
  have n: "map_get [] (generateToolName ''containers'' (category example_query)) = None"
    by (simp add: map_get_def)
  have "registerToolFromQuery 2000 example_query ''containers''
          (registerToolFromQuery 1000 example_query ''containers'' [])
        = [] @ [(generateToolName ''containers'' (category example_query),
            \<lparr>name = generateToolName ''containers'' (category example_query),
             description = ''Dynamically generated tool: '' @ ''containers'',
             inputSchema = generateInputSchema example_query,
             generator = \<lparr>gen_lqlQuery = example_query, gen_naturalLanguage = ''containers''\<rparr>,
             queryPattern = Some example_query,
             created = 1000, lastUsed = Some 2000, usageCount = 1\<rparr>)]"
    by (rule C2_register_twice [of "[]" "''containers''" example_query 2000 1000, THEN conjunct1, THEN mp, OF n])
  with n show ?thesis by simp
qed

lemma executeTool_registry:
  "snd (executeTool now exec n args tools) =
     (case map_get tools n of
        Some tool \<Rightarrow> update_usage now (gen_lqlQuery (generator tool)) (gen_naturalLanguage (generator tool)) tools
      | None \<Rightarrow> tools)"
  by (auto simp: executeTool_def executeDynamicQuery_def Let_def split: option.splits sum.splits)

lemma executeTool_counts_registered:
  assumes "map_get tools n = Some tool"
    and "generateToolName (gen_naturalLanguage (generator tool)) (category (gen_lqlQuery (generator tool))) = n"
  shows "map_get (snd (executeTool now exec n args tools)) n
           = Some (tool\<lparr>lastUsed := Some now, usageCount := usageCount tool + 1\<rparr>)"
  using assms by (simp add: executeTool_registry update_usage_def Let_def map_get_map_set)

text \<open>
  C7 fails on the code for a tool made by \<^verbatim>\<open>generateToolFromQuery\<close>.  The tool is stored
  under the requested name, "list-aws-buckets"; its generator looks the tool up under the
  name derived from the inferred text, "get-aws-buckets", finds nothing and updates
  nothing: after an invocation \<^verbatim>\<open>usageCount\<close> is still 0 and \<^verbatim>\<open>lastUsed\<close> still unset,
  whatever the collaborator \<open>exec\<close> and the arguments are.
\<close>

theorem C7_generated_tool_usage_not_counted:
  "map_option (\<lambda>r. (fst r, map (\<lambda>e. (fst e, usageCount (snd e), lastUsed (snd e))) (snd r),
                      map (\<lambda>e. (fst e, usageCount (snd e), lastUsed (snd e)))
                        (snd (executeTool 2000 exec ''list-aws-buckets'' args (snd r)))))
     (generateToolFromQuery 1000 1001 ''list-aws-buckets'' None [])
   = Some (True, [(''list-aws-buckets'', 0, None)], [(''list-aws-buckets'', 0, None)])"
  unfolding executeTool_registry
  by code_simp


section \<open>Properties of the field resolvers\<close>























text \<open>The names of the known data sources and of their known fields.\<close>

lemma known_source_names_plain:
  "\<forall>s \<in> set getKnownDataSources. ds_name s \<notin> set object_prototype_members"
  by (simp add: getKnownDataSources_def source_info_def object_prototype_members_def)

lemma translator_source_names_plain:
  "\<forall>n \<in> set known_sources. n \<notin> set object_prototype_members"
  by (simp add: known_sources_def object_prototype_members_def)

lemma knownFields_names_nonempty:
  "map_of knownFields sourceName = Some fs \<Longrightarrow> f \<in> set fs \<Longrightarrow> f_name f \<noteq> []"
  by (auto simp: knownFields_def known_field_def split: if_splits)





section \<open>Properties of the catalog\<close>

lemma set_insert_by: "set (insert_by lc x xs) = insert x (set xs)"
  by (induction xs) auto

lemma length_insert_by: "length (insert_by lc x xs) = Suc (length xs)"
  by (induction xs) auto

lemma set_sort_by_name: "set (sort_by_name lc xs) = set xs"
  unfolding sort_by_name_def by (induction xs) (auto simp: set_insert_by)

lemma length_sort_by_name: "length (sort_by_name lc xs) = length xs"
  unfolding sort_by_name_def by (induction xs) (auto simp: length_insert_by)

lemma sorted_insert_by:
  assumes total: "\<And>a b. lc a b \<or> lc b a" and trans: "\<And>a b c. lc a b \<Longrightarrow> lc b c \<Longrightarrow> lc a c"
  shows "sorted_wrt (\<lambda>x y. lc (f_name x) (f_name y)) xs
         \<Longrightarrow> sorted_wrt (\<lambda>x y. lc (f_name x) (f_name y)) (insert_by lc x xs)"
proof (induction xs)
  case Nil
  then show ?case by simp
next
  case (Cons y ys)
  show ?case
  proof (cases "lc (f_name x) (f_name y)")
    case True
    with Cons.prems trans show ?thesis by auto
  next
    case False
    with total have "lc (f_name y) (f_name x)" by blast
    with False Cons show ?thesis
      by (auto simp: set_insert_by)
  qed
qed

lemma sorted_sort_by_name:
  assumes "\<And>a b. lc a b \<or> lc b a" and "\<And>a b c. lc a b \<Longrightarrow> lc b c \<Longrightarrow> lc a c"
  shows "sorted_wrt (\<lambda>x y. lc (f_name x) (f_name y)) (sort_by_name lc xs)"
  unfolding sort_by_name_def
  by (induction xs) (auto intro: sorted_insert_by [OF assms])

















text \<open>
  C9 fails on the code after a failure of the sample query: the \<^verbatim>\<open>catch\<close> branch of
  \<^verbatim>\<open>discoverFields\<close> returns the table of known fields as it is written, for
  \<^verbatim>\<open>LW_CFG_AWS_EC2_INSTANCES\<close> with \<^verbatim>\<open>RESOURCE_REGION\<close> before \<^verbatim>\<open>ACCOUNT_ID\<close>, which is not
  sorted under any collation that puts \<^verbatim>\<open>ACCOUNT_ID\<close> first.  The other path to the same
  table (no row) sorts it.
\<close>

theorem C9_fallback_after_failure_unsorted:
  "discoverFields lc (Inl e) ''LW_CFG_AWS_EC2_INSTANCES''
     = Inr (Fields (the (map_of knownFields ''LW_CFG_AWS_EC2_INSTANCES'')))
   \<and> map f_name (the (map_of knownFields ''LW_CFG_AWS_EC2_INSTANCES''))
       = [''RESOURCE_ID'', ''RESOURCE_REGION'', ''ACCOUNT_ID'', ''RESOURCE_CONFIG'', ''URN'']
   \<and> (\<not> lc ''RESOURCE_REGION'' ''ACCOUNT_ID'' \<longrightarrow>
        \<not> sorted_wrt (\<lambda>x y. lc (f_name x) (f_name y)) (the (map_of knownFields ''LW_CFG_AWS_EC2_INSTANCES'')))
   \<and> discoverFields lc (Inr []) ''LW_CFG_AWS_EC2_INSTANCES''
       = Inr (Fields (sort_by_name lc (the (map_of knownFields ''LW_CFG_AWS_EC2_INSTANCES''))))"
proof -
  have k: "getKnownFields ''LW_CFG_AWS_EC2_INSTANCES'' = Fields (the (map_of knownFields ''LW_CFG_AWS_EC2_INSTANCES''))"
    by code_simp
  have n: "map f_name (the (map_of knownFields ''LW_CFG_AWS_EC2_INSTANCES''))
       = [''RESOURCE_ID'', ''RESOURCE_REGION'', ''ACCOUNT_ID'', ''RESOURCE_CONFIG'', ''URN'']"
    by code_simp
  have u: "\<not> lc ''RESOURCE_REGION'' ''ACCOUNT_ID'' \<longrightarrow>
        \<not> sorted_wrt (\<lambda>x y. lc (f_name x) (f_name y)) (the (map_of knownFields ''LW_CFG_AWS_EC2_INSTANCES''))"
    by (simp add: knownFields_def known_field_def)
  show ?thesis
    using k n u by (simp add: discoverFields_def discoverFields_try_def)
qed

theorem C9_fallback_unsorted_witness:
  "\<not> codeunit_le ''RESOURCE_REGION'' ''ACCOUNT_ID''
   \<and> \<not> sorted_wrt (\<lambda>x y. codeunit_le (f_name x) (f_name y))
         (the (map_of knownFields ''LW_CFG_AWS_EC2_INSTANCES''))
   \<and> map f_name (sort_by_name codeunit_le (the (map_of knownFields ''LW_CFG_AWS_EC2_INSTANCES'')))
       = [''ACCOUNT_ID'', ''RESOURCE_CONFIG'', ''RESOURCE_ID'', ''RESOURCE_REGION'', ''URN'']"
proof -
  have h: "\<not> codeunit_le ''RESOURCE_REGION'' ''ACCOUNT_ID''"
    by simp
  have s: "map f_name (sort_by_name codeunit_le (the (map_of knownFields ''LW_CFG_AWS_EC2_INSTANCES'')))
       = [''ACCOUNT_ID'', ''RESOURCE_CONFIG'', ''RESOURCE_ID'', ''RESOURCE_REGION'', ''URN'']"
    by (simp add: knownFields_def known_field_def sort_by_name_def)
  from C9_fallback_after_failure_unsorted [of codeunit_le "ExecutionError ''timeout''"] h
  have "\<not> sorted_wrt (\<lambda>x y. codeunit_le (f_name x) (f_name y))
         (the (map_of knownFields ''LW_CFG_AWS_EC2_INSTANCES''))"
    by blast
  with h s show ?thesis by blast
qed


end
